theory Spec2Isabelle
  imports Main "HOL-Library.Word"
begin

section \<open>Basic types and consensus constants\<close>

text \<open>
  Unsigned machine integers of the C++ sources are words: \<open>uint64_t\<close> and \<open>size_t\<close> are
  \<open>64 word\<close>, \<open>uint32_t\<close> is \<open>32 word\<close>.  A hard-fork version (\<open>uint8_t\<close>) is only ever
  compared with literals and is a natural number.  A 32-byte public key is the natural number
  its bytes spell in big-endian order, so that the numeric order is the \<open>memcmp\<close> order used
  by \<open>get_service_nodes_pubkeys\<close>; \<open>crypto::null_pkey\<close> is the all-zero key.
\<close>

type_synonym u64 = "64 word"
type_synonym u32 = "32 word"
type_synonym public_key = nat
type_synonym hf_version = nat

definition null_pkey :: public_key where
  "null_pkey = 0"

record account_public_address =
  m_spend_public_key :: public_key
  m_view_public_key :: public_key

definition null_address :: account_public_address where
  "null_address = \<lparr>m_spend_public_key = null_pkey, m_view_public_key = null_pkey\<rparr>"

text \<open>
  The constants of \<open>cryptonote_config.h\<close> and \<open>service_node_rules.h\<close> are used by the
  sources under verification but declared in headers that are not part of the verified
  files; they are collected in one record and every function that reads one takes the record
  as its first argument.  \<open>lock_blocks\<close> is the value of
  \<open>get_staking_requirement_lock_blocks (nettype)\<close>.
\<close>

record config =
  SERVICE_NODE_VERSION :: hf_version
  STAKING_PORTIONS :: u64
  COIN :: u64
  MAX_NUMBER_OF_CONTRIBUTORS :: u64
  MAX_NUMBER_OF_CONTRIBUTORS_V2 :: u64
  MAX_NUMBER_OF_CONTRIBUTORS_V3 :: u64
  MIN_OPERATOR_V12 :: u64
  MAX_OPERATOR_V12 :: u64
  MIN_POOL_STAKERS_V12 :: u64
  MAX_POOL_STAKERS_V12 :: u64
  lock_blocks :: u64
  STAKING_REQUIREMENT_LOCK_BLOCKS_EXCESS :: u64
  CRYPTONOTE_MAX_BLOCK_NUMBER :: u64
  CRYPTONOTE_MINED_MONEY_UNLOCK_WINDOW :: u64
  UNASSIGNED_SWARM_ID :: u64
  QUORUM_SIZE :: nat
  MIN_NODES_TO_TEST :: nat
  NTH_OF_THE_NETWORK_TO_TEST :: nat
  DEREGISTER_LIFETIME_BY_HEIGHT :: u64
  DEREGISTER_LIFETIME_BY_HEIGHT_V2 :: u64

text \<open>
  \<open>mul128\<close> followed by \<open>div128_64\<close>: the 128-bit product of two 64-bit values is divided
  by a 64-bit divisor and the callers keep the low 64 bits of the quotient.
\<close>

definition mul_div_lo :: "u64 \<Rightarrow> u64 \<Rightarrow> u64 \<Rightarrow> u64" where
  "mul_div_lo a b d = word_of_nat ((unat a * unat b) div unat d)"

section \<open>Reward calculator\<close>

record block_reward_parts =
  original_base_reward :: u64
  adjusted_base_reward :: u64
  governance :: u64
  dev_fund :: u64
  service_node_total :: u64
  service_node_paid :: u64
  operator_reward :: u64
  staker_reward :: u64
  base_miner :: u64
  base_miner_fee :: u64

definition zero_reward_parts :: block_reward_parts where
  "zero_reward_parts = \<lparr>original_base_reward = 0, adjusted_base_reward = 0, governance = 0,
     dev_fund = 0, service_node_total = 0, service_node_paid = 0, operator_reward = 0,
     staker_reward = 0, base_miner = 0, base_miner_fee = 0\<rparr>"


definition service_node_reward_formula :: "config \<Rightarrow> u64 \<Rightarrow> hf_version \<Rightarrow> u64" where
  "service_node_reward_formula cfg base_reward hard_fork_version =
     (if hard_fork_version > 11 then base_reward div 4 * 3
      else if hard_fork_version \<ge> SERVICE_NODE_VERSION cfg then base_reward div 2
      else 0)"

definition get_portion_of_reward :: "config \<Rightarrow> u64 \<Rightarrow> u64 \<Rightarrow> u64" where
  "get_portion_of_reward cfg portions total_service_node_reward =
     mul_div_lo total_service_node_reward portions (STAKING_PORTIONS cfg)"

text \<open>
  The share of the reward paid to entry \<open>i\<close> of the winner list; the same case split occurs
  in \<open>calculate_sum_of_portions\<close>, \<open>construct_miner_tx\<close> and \<open>validate_miner_tx\<close>.
\<close>

definition portion_amount ::
  "config \<Rightarrow> hf_version \<Rightarrow> block_reward_parts \<Rightarrow> nat \<Rightarrow> u64 \<Rightarrow> u64" where
  "portion_amount cfg hf brr i portions =
     (if hf \<ge> 17 then get_portion_of_reward cfg portions (service_node_total brr)
      else if hf \<ge> 12 then
        (if i = 0 then get_portion_of_reward cfg portions (operator_reward brr)
         else get_portion_of_reward cfg portions (staker_reward brr))
      else get_portion_of_reward cfg portions (service_node_total brr))"

fun sum_of_portions_from ::
  "config \<Rightarrow> hf_version \<Rightarrow> block_reward_parts \<Rightarrow> nat \<Rightarrow>
   (account_public_address \<times> u64) list \<Rightarrow> u64 \<Rightarrow> u64" where
  "sum_of_portions_from cfg hf brr i [] reward = reward"
| "sum_of_portions_from cfg hf brr i (p # ps) reward =
     sum_of_portions_from cfg hf brr (Suc i) ps (reward + portion_amount cfg hf brr i (snd p))"

definition calculate_sum_of_portions ::
  "config \<Rightarrow> (account_public_address \<times> u64) list \<Rightarrow> block_reward_parts \<Rightarrow> hf_version \<Rightarrow> u64"
  where
  "calculate_sum_of_portions cfg portions brr hf_version =
     sum_of_portions_from cfg hf_version brr 0 portions 0"

definition null_winner :: "config \<Rightarrow> (account_public_address \<times> u64) list" where
  "null_winner cfg = [(null_address, STAKING_PORTIONS cfg)]"

text \<open>
  \<open>get_equilibria_block_reward\<close>.  The result of \<open>get_block_reward\<close> (\<open>None\<close> when it
  fails) and the values of the height-keyed tables \<open>allow_governance\<close> and
  \<open>allow_dev_fund\<close> at the block height are arguments.  \<open>None\<close> is the \<open>false\<close> return.
\<close>

definition get_equilibria_block_reward ::
  "config \<Rightarrow> u64 option \<Rightarrow> u64 \<Rightarrow> u64 \<Rightarrow> u64 \<Rightarrow> hf_version \<Rightarrow>
   (account_public_address \<times> u64) list \<Rightarrow> u64 \<Rightarrow> block_reward_parts option" where
  "get_equilibria_block_reward cfg block_reward gov_at_height dev_at_height
       already_generated_coins hard_fork_version snode_winner_info fee =
     (case block_reward of
        None \<Rightarrow> None
      | Some base0 \<Rightarrow>
          let gov = (if hard_fork_version \<ge> 7 then gov_at_height else 0);
              dev = (if hard_fork_version \<ge> 17 then dev_at_height else 0);
              base_reward = base0 + gov + dev;
              result = zero_reward_parts\<lparr>governance := gov, dev_fund := dev\<rparr>
          in if base_reward = 0 then None
             else if already_generated_coins = 0 then
               Some (result\<lparr>original_base_reward := base_reward,
                            adjusted_base_reward := base_reward,
                            base_miner := base_reward\<rparr>)
             else
               let adjusted = base_reward - (gov + dev);
                   sn_total = service_node_reward_formula cfg adjusted hard_fork_version;
                   operator = sn_total div 2;
                   staker = sn_total - operator;
                   r1 = result\<lparr>original_base_reward := base_reward,
                                adjusted_base_reward := adjusted,
                                service_node_total := sn_total,
                                operator_reward := operator,
                                staker_reward := staker\<rparr>;
                   paid = (if snode_winner_info = []
                           then calculate_sum_of_portions cfg (null_winner cfg) r1 hard_fork_version
                           else calculate_sum_of_portions cfg snode_winner_info r1 hard_fork_version)
               in Some (r1\<lparr>service_node_paid := paid,
                           base_miner := adjusted - sn_total,
                           base_miner_fee := fee\<rparr>))"

section \<open>Service-node registry: data model\<close>

record contribution =
  amount :: u64
  reserved :: u64
  address :: account_public_address

text \<open>The constructor \<open>contribution (_reserved, _address)\<close> sets \<open>amount\<close> to zero.\<close>

definition mk_contribution :: "u64 \<Rightarrow> account_public_address \<Rightarrow> contribution" where
  "mk_contribution r a = \<lparr>amount = 0, reserved = r, address = a\<rparr>"

record service_node_info =
  version :: nat
  registration_height :: u64
  last_reward_block_height :: u64
  last_reward_transaction_index :: u32
  contributors :: "contribution list"
  total_contributed :: u64
  total_reserved :: u64
  staking_requirement :: u64
  portions_for_operator :: u64
  swarm_id :: u64
  operator_address :: account_public_address

definition version_0 :: nat where "version_0 = 0"
definition version_1_swarms :: nat where "version_1_swarms = 1"

text \<open>Value initialisation \<open>service_node_info info = {}\<close>.\<close>

definition empty_info :: service_node_info where
  "empty_info = \<lparr>version = version_0, registration_height = 0, last_reward_block_height = 0,
     last_reward_transaction_index = 0, contributors = [], total_contributed = 0,
     total_reserved = 0, staking_requirement = 0, portions_for_operator = 0, swarm_id = 0,
     operator_address = null_address\<rparr>"

definition is_valid :: "service_node_info \<Rightarrow> bool" where
  "is_valid info \<longleftrightarrow> total_contributed info \<ge> total_reserved info"

definition is_fully_funded :: "service_node_info \<Rightarrow> bool" where
  "is_fully_funded info \<longleftrightarrow> total_contributed info \<ge> staking_requirement info"

text \<open>
  \<open>m_service_nodes_infos\<close> is a \<open>std::unordered_map\<close>.  It is modelled as an association
  list with distinct keys whose order is the iteration order of the container; lookup is
  \<open>map_of\<close>, \<open>erase\<close> removes the pair, and assignment through \<open>operator[]\<close> overwrites the
  value in place or appends a new pair.
\<close>

type_synonym registry = "(public_key \<times> service_node_info) list"

definition erase :: "public_key \<Rightarrow> registry \<Rightarrow> registry" where
  "erase k reg = filter (\<lambda>p. fst p \<noteq> k) reg"

fun assign :: "public_key \<Rightarrow> service_node_info \<Rightarrow> registry \<Rightarrow> registry" where
  "assign k v [] = [(k, v)]"
| "assign k v (p # ps) = (if fst p = k then (k, v) # ps else p # assign k v ps)"

definition portions_to_amount :: "config \<Rightarrow> u64 \<Rightarrow> u64 \<Rightarrow> u64" where
  "portions_to_amount cfg portions staking_req =
     mul_div_lo staking_req portions (STAKING_PORTIONS cfg)"

section \<open>Winner selector\<close>

text \<open>Comparison of \<open>std::pair<uint64_t, uint32_t>\<close> with \<open>operator<\<close>.\<close>

definition pair_less :: "u64 \<times> u32 \<Rightarrow> u64 \<times> u32 \<Rightarrow> bool" where
  "pair_less a b \<longleftrightarrow> fst a < fst b \<or> (fst a = fst b \<and> snd a < snd b)"

definition waiting_since :: "service_node_info \<Rightarrow> u64 \<times> u32" where
  "waiting_since info = (last_reward_block_height info, last_reward_transaction_index info)"

text \<open>
  The loop of \<open>select_winner\<close>: \<open>oldest_waiting\<close>, \<open>key\<close> and \<open>overPortioned\<close> are the
  three locals declared before the loop; \<open>overPortioned\<close> is set inside the loop and never
  cleared.
\<close>

fun select_winner_loop ::
  "config \<Rightarrow> hf_version \<Rightarrow> registry \<Rightarrow> u64 \<times> u32 \<Rightarrow> public_key \<Rightarrow> bool \<Rightarrow> public_key" where
  "select_winner_loop cfg hf [] oldest_waiting key overPortioned = key"
| "select_winner_loop cfg hf (p # rest) oldest_waiting key overPortioned =
     (let info = snd p;
          overPortioned' =
            (if hf = 12 \<and> total_contributed info
                  < portions_to_amount cfg (portions_for_operator info) (staking_requirement info)
             then True else overPortioned)
      in if (is_valid info \<and> hf > 9) \<or> (is_fully_funded info \<and> \<not> overPortioned')
         then (if pair_less (waiting_since info) oldest_waiting
               then select_winner_loop cfg hf rest (waiting_since info) (fst p) overPortioned'
               else select_winner_loop cfg hf rest oldest_waiting key overPortioned')
         else select_winner_loop cfg hf rest oldest_waiting key overPortioned')"

definition select_winner :: "config \<Rightarrow> hf_version \<Rightarrow> registry \<Rightarrow> public_key" where
  "select_winner cfg hf reg = select_winner_loop cfg hf reg (- 1, - 1) null_pkey False"

text \<open>
  The payout portions of one contributor of the winning node, as computed in the loop of
  \<open>get_winner_addresses_and_portions\<close>.
\<close>

definition winner_portion :: "config \<Rightarrow> hf_version \<Rightarrow> service_node_info \<Rightarrow> contribution \<Rightarrow> u64"
  where
  "winner_portion cfg hf info c =
     (if hf < 12 then
        (let r = mul_div_lo (amount c) (STAKING_PORTIONS cfg - portions_for_operator info)
                   (staking_requirement info)
         in if address c = operator_address info then r + portions_for_operator info else r)
      else if hf < 17 then
        (if address c = operator_address info
         then mul_div_lo (amount c) (STAKING_PORTIONS cfg) (MAX_OPERATOR_V12 cfg * COIN cfg)
         else mul_div_lo (amount c) (STAKING_PORTIONS cfg) (MAX_POOL_STAKERS_V12 cfg * COIN cfg))
      else mul_div_lo (amount c) (STAKING_PORTIONS cfg) (staking_requirement info))"

text \<open>
  \<open>get_winner_addresses_and_portions\<close>.  \<open>hf_height\<close> is the hard-fork version at
  \<open>m_height\<close> (read by \<open>select_winner\<close>), \<open>hf_current\<close> the current hard-fork version.
  \<open>None\<close> is the \<open>std::out_of_range\<close> exception of \<open>m_service_nodes_infos.at (key)\<close>.
\<close>

definition get_winner_addresses_and_portions ::
  "config \<Rightarrow> hf_version \<Rightarrow> hf_version \<Rightarrow> registry \<Rightarrow> (account_public_address \<times> u64) list option"
  where
  "get_winner_addresses_and_portions cfg hf_height hf_current reg =
     (let key = select_winner cfg hf_height reg
      in if key = null_pkey then Some [(null_address, STAKING_PORTIONS cfg)]
         else (case map_of reg key of
                 None \<Rightarrow> None
               | Some info \<Rightarrow>
                   Some (map (\<lambda>c. (address c, winner_portion cfg hf_current info c))
                           (contributors info))))"

section \<open>Coinbase transaction: construction and validation\<close>

datatype txout_target = Txout_to_key public_key | Txout_to_script | Txout_to_scripthash

record tx_out =
  out_amount :: u64
  out_target :: txout_target

text \<open>
  The consensus-relevant part of a coinbase transaction: the heights of its \<open>txin_gen\<close>
  inputs, its outputs with their unlock times, the service-node winner recorded in the extra
  field (\<open>null_pkey\<close> when the field is absent) and the unlock time.
\<close>

record coinbase_tx =
  vin :: "u64 list"
  vout :: "tx_out list"
  output_unlock_times :: "u64 list"
  extra_winner :: public_key
  unlock_time :: u64

datatype wallet_name =
  GOVERNANCE_WALLET_ADDRESS | BRIDGE_WALLET_ADDRESS | NEW_BRIDGE_WALLET_ADDRESS
  | NEW_GOV_WALLET | DEV_FUND_WALLET | NEW_DEV_WALLET

text \<open>
  The cryptographic primitives and chain queries used while building or checking a
  coinbase.  \<open>miner_output_key a\<close> is \<open>generate_key_derivation\<close> with the fresh transaction
  key followed by \<open>derive_public_key\<close> at index 0; \<open>sn_output_key h a i\<close> is the same pair
  of calls with the deterministic key of height \<open>h\<close> at index \<open>i\<close>;
  \<open>deterministic_output_key\<close> is \<open>get_deterministic_output_key\<close>.  Each is \<open>None\<close> when
  the primitive reports failure.  \<open>extra_ok\<close> says that \<open>add_extra_nonce_to_tx_extra\<close> and
  \<open>sort_tx_extra\<close> succeed.
\<close>

record crypto_env =
  extra_ok :: bool
  miner_output_key :: "account_public_address \<Rightarrow> public_key option"
  sn_output_key :: "u64 \<Rightarrow> account_public_address \<Rightarrow> nat \<Rightarrow> public_key option"
  deterministic_output_key :: "u64 \<Rightarrow> account_public_address \<Rightarrow> nat \<Rightarrow> public_key option"
  wallet_address :: "wallet_name \<Rightarrow> account_public_address"








datatype validate_result =
  Valid | WrongWinner | OutputCount | WrongAmount | WrongTarget | WrongOutputKey
  | DerivationFailed | OutOfRange | OutOfBounds

text \<open>
  The loop of \<open>validate_miner_tx\<close> over \<open>addresses_and_portions\<close>.  Reading
  \<open>miner_tx.vout[vout_index]\<close> past the end of the vector is undefined behaviour in the
  source and is the result \<open>OutOfBounds\<close> here.
\<close>

fun validate_outputs ::
  "config \<Rightarrow> crypto_env \<Rightarrow> hf_version \<Rightarrow> u64 \<Rightarrow> block_reward_parts \<Rightarrow> u64 \<Rightarrow> tx_out list \<Rightarrow>
   nat \<Rightarrow> (account_public_address \<times> u64) list \<Rightarrow> validate_result" where
  "validate_outputs cfg env hf height rp sn_total outs i [] = Valid"
| "validate_outputs cfg env hf height rp sn_total outs i (p # ps) =
     (let vout_index = i + 1;
          reward_part = (if i = 0 then operator_reward rp else staker_reward rp);
          reward = (if hf \<ge> 17 then get_portion_of_reward cfg (snd p) sn_total
                    else if hf \<ge> 12 then get_portion_of_reward cfg (snd p) reward_part
                    else get_portion_of_reward cfg (snd p) sn_total)
      in if vout_index \<ge> length outs then OutOfBounds
         else if out_amount (outs ! vout_index) \<noteq> reward then WrongAmount
         else (case out_target (outs ! vout_index) of
                 Txout_to_key k \<Rightarrow>
                   (case sn_output_key env height (fst p) vout_index of
                      None \<Rightarrow> DerivationFailed
                    | Some e \<Rightarrow>
                        if k \<noteq> e then WrongOutputKey
                        else validate_outputs cfg env hf height rp sn_total outs (Suc i) ps)
               | _ \<Rightarrow> WrongTarget))"

text \<open>
  The output-count guard \<open>miner_tx.vout.size () - 1 < addresses_and_portions.size ()\<close>,
  evaluated in \<open>size_t\<close>.
\<close>

definition output_count_guard :: "'a list \<Rightarrow> 'b list \<Rightarrow> bool" where
  "output_count_guard outs aps \<longleftrightarrow>
     (word_of_nat (length outs) - 1 :: u64) < word_of_nat (length aps)"

definition validate_miner_tx ::
  "config \<Rightarrow> crypto_env \<Rightarrow> hf_version \<Rightarrow> hf_version \<Rightarrow> registry \<Rightarrow> coinbase_tx \<Rightarrow> u64 \<Rightarrow>
   hf_version \<Rightarrow> block_reward_parts \<Rightarrow> validate_result" where
  "validate_miner_tx cfg env hf_height hf_current reg miner_tx height hard_fork_version
       reward_parts =
     (if hard_fork_version < 5 then Valid
      else
        let base_reward = adjusted_base_reward reward_parts;
            total_service_node_reward =
              service_node_reward_formula cfg base_reward hard_fork_version;
            winner = select_winner cfg hf_height reg
        in if extra_winner miner_tx \<noteq> winner then WrongWinner
           else (case get_winner_addresses_and_portions cfg hf_height hf_current reg of
                   None \<Rightarrow> OutOfRange
                 | Some addresses_and_portions \<Rightarrow>
                     if output_count_guard (vout miner_tx) addresses_and_portions
                     then OutputCount
                     else validate_outputs cfg env hard_fork_version height reward_parts
                            total_service_node_reward (vout miner_tx) 0
                            addresses_and_portions))"

section \<open>Quorum selector\<close>

record quorum_state =
  quorum_nodes :: "public_key list"
  nodes_to_test :: "public_key list"

definition empty_quorum_state :: quorum_state where
  "empty_quorum_state = \<lparr>quorum_nodes = [], nodes_to_test = []\<rparr>"

definition get_service_nodes_pubkeys :: "hf_version \<Rightarrow> registry \<Rightarrow> public_key list" where
  "get_service_nodes_pubkeys hard_fork_version reg =
     sort (map fst (filter (\<lambda>p. (is_valid (snd p) \<and> hard_fork_version > 9)
                                 \<or> is_fully_funded (snd p)) reg))"

text \<open>
  \<open>xeq_shuffle\<close>.  The seeded Mersenne twister and the rejection loop of
  \<open>uniform_distribution_portable\<close> are represented by the sequence of their results:
  \<open>draw i\<close> is the value returned by \<open>uniform_distribution_portable (mersenne_twister, i + 1)\<close>
  in the iteration with index \<open>i\<close>, a number below \<open>i + 1\<close>.
\<close>

fun shuffle_steps :: "(nat \<Rightarrow> nat) \<Rightarrow> nat \<Rightarrow> nat \<Rightarrow> 'a list \<Rightarrow> 'a list" where
  "shuffle_steps draw i 0 a = a"
| "shuffle_steps draw i (Suc n) a =
     (let j = draw i
      in shuffle_steps draw (Suc i) n (if i \<noteq> j then a[i := a ! j, j := a ! i] else a))"

definition xeq_shuffle :: "(nat \<Rightarrow> nat) \<Rightarrow> 'a list \<Rightarrow> 'a list" where
  "xeq_shuffle draw a = (if length a \<le> 1 then a else shuffle_steps draw 1 (length a - 1) a)"

text \<open>
  The quorum and the nodes to test built by \<open>store_quorum_state_from_rewards_list\<close> from
  the sorted key list.
\<close>

definition build_quorum_state :: "config \<Rightarrow> (nat \<Rightarrow> nat) \<Rightarrow> public_key list \<Rightarrow> quorum_state"
  where
  "build_quorum_state cfg draw full_node_list =
     (let pub_keys_indexes = xeq_shuffle draw [0 ..< length full_node_list];
          quorum_size = min (length full_node_list) (QUORUM_SIZE cfg);
          quorum = map (\<lambda>i. full_node_list ! (pub_keys_indexes ! i)) [0 ..< quorum_size];
          num_remaining_nodes = length pub_keys_indexes - length quorum;
          num_nodes_to_test =
            max (num_remaining_nodes div NTH_OF_THE_NETWORK_TO_TEST cfg)
                (min (MIN_NODES_TO_TEST cfg) num_remaining_nodes);
          pub_keys_offset = length quorum;
          to_test = map (\<lambda>i. full_node_list ! (pub_keys_indexes ! (pub_keys_offset + i)))
                      [0 ..< num_nodes_to_test]
      in \<lparr>quorum_nodes = quorum, nodes_to_test = to_test\<rparr>)"

section \<open>Service-node registry: transactions, journal and state\<close>

datatype txtype = Standard | Deregister | Stake | Swap

text \<open>
  A transaction as the registry reads it.  \<open>tx_register\<close> is the registration record of
  the extra field (addresses, operator portions, contributor portions, expiration time, and
  whether the registration hash can be built and its signature verifies under a valid
  service-node key); \<open>tx_service_node_pubkey\<close> the service-node key of the extra field;
  \<open>tx_contributor\<close> the contributor address, present when the extra field holds the
  contributor and the transaction secret key and the key derivation succeeds;
  \<open>tx_staking_outputs\<close> holds, for each output, its unlock time and the amount that
  \<open>get_reg_tx_staking_output_contribution\<close> decodes for the contributor;
  \<open>tx_deregister\<close> is the pair (block height, service-node index) of a deregistration.
\<close>

record tx_registration =
  reg_addresses :: "account_public_address list"
  reg_portions_for_operator :: u64
  reg_portions :: "u64 list"
  reg_expiration_timestamp :: u64
  reg_signature_ok :: bool

record transaction =
  tx_type :: txtype
  tx_register :: "tx_registration option"
  tx_service_node_pubkey :: "public_key option"
  tx_contributor :: "account_public_address option"
  tx_staking_outputs :: "(u64 \<times> u64) list"
  tx_burned_amount :: u64
  tx_txnFee :: u64
  tx_miner_fee :: u64
  tx_deregister :: "(u64 \<times> u32) option"

record block =
  blk_height :: u64
  blk_timestamp :: u64
  blk_winner :: public_key

datatype rollback_event =
  Rollback_change u64 public_key service_node_info
  | Rollback_new u64 public_key
  | Prevent_rollback u64

fun m_block_height :: "rollback_event \<Rightarrow> u64" where
  "m_block_height (Rollback_change h k i) = h"
| "m_block_height (Rollback_new h k) = h"
| "m_block_height (Prevent_rollback h) = h"

text \<open>
  The state of \<open>service_node_list\<close>.  The journal \<open>m_rollback_events\<close> is a list whose
  head is the front of the \<open>std::list\<close>; \<open>m_quorum_states\<close> is the ordered map from
  heights to quorum states.
\<close>

record service_node_list =
  m_service_nodes_infos :: registry
  m_rollback_events :: "rollback_event list"
  m_height :: u64
  m_quorum_states :: "u64 \<Rightarrow> quorum_state option"

text \<open>
  Queries of the blockchain and helpers of files outside the verified sources:
  the hard-fork version and the staking requirement at a height, \<open>get_min_node_contribution\<close>,
  whether the block id at a height is the null hash, the shuffle draws seeded by the block
  hash at a height, \<open>calc_swarm_changes\<close> applied to the swarm map (an association list
  ordered by swarm id) with the seed of a height, and the timestamp and transactions of a
  stored block.  \<open>uninit_min_portions\<close> gives the indeterminate value that the local
  \<open>min_portions\<close> of \<open>check_service_node_portions\<close> is initialised from in each iteration.
\<close>

record chain =
  hard_fork_version_at :: "u64 \<Rightarrow> hf_version"
  staking_requirement_at :: "u64 \<Rightarrow> u64"
  min_node_contribution :: "hf_version \<Rightarrow> u64 \<Rightarrow> u64 \<Rightarrow> u64"
  uninit_min_portions :: "nat \<Rightarrow> u64"
  block_id_null :: "u64 \<Rightarrow> bool"
  shuffle_draw :: "u64 \<Rightarrow> nat \<Rightarrow> nat"
  calc_swarm_changes :: "u64 \<Rightarrow> (u64 \<times> public_key list) list \<Rightarrow> (u64 \<times> public_key list) list"
  stored_block :: "u64 \<Rightarrow> (u64 \<times> transaction list) option"

text \<open>
  The result of an operation that can be left through a failed assertion or an exception:
  \<open>Aborted\<close> carries the state as written up to that point.
\<close>

datatype 'a outcome = Done 'a | Aborted 'a


fun check_portions_from :: "config \<Rightarrow> chain \<Rightarrow> nat \<Rightarrow> u64 \<Rightarrow> u64 list \<Rightarrow> bool" where
  "check_portions_from cfg ch i portions_left [] = True"
| "check_portions_from cfg ch i portions_left (portion # rest) =
     (let min_portions = min portions_left (uninit_min_portions ch i)
      in if portion < min_portions \<or> portion > portions_left then False
         else check_portions_from cfg ch (Suc i) (portions_left - portion) rest)"

definition check_service_node_portions :: "config \<Rightarrow> chain \<Rightarrow> u64 list \<Rightarrow> bool" where
  "check_service_node_portions cfg ch portions =
     check_portions_from cfg ch 0 (STAKING_PORTIONS cfg) portions"

definition contribution_tx_output_has_correct_unlock_time ::
  "config \<Rightarrow> u64 \<Rightarrow> u64 \<Rightarrow> bool" where
  "contribution_tx_output_has_correct_unlock_time cfg unlock block_height \<longleftrightarrow>
     unlock < CRYPTONOTE_MAX_BLOCK_NUMBER cfg \<and> unlock \<ge> block_height + lock_blocks cfg"

definition get_contribution ::
  "config \<Rightarrow> transaction \<Rightarrow> u64 \<Rightarrow> (account_public_address \<times> u64) option" where
  "get_contribution cfg tx block_height =
     (case tx_contributor tx of
        None \<Rightarrow> None
      | Some a \<Rightarrow>
          Some (a, foldl (\<lambda>transferred out.
                           if contribution_tx_output_has_correct_unlock_time cfg (fst out)
                                block_height
                           then transferred + snd out else transferred)
                     0 (tx_staking_outputs tx)))"

text \<open>
  The loop at the end of \<open>is_registration_tx\<close>: \<open>seen\<close> are the addresses before the
  current one, \<open>basis\<close> the amount the portions are taken of.  \<open>None\<close> is the \<open>return false\<close>
  on a duplicate address.
\<close>

fun reserve_contributors ::
  "config \<Rightarrow> u64 \<Rightarrow> account_public_address list \<Rightarrow> account_public_address list \<Rightarrow> u64 list \<Rightarrow>
   service_node_info \<Rightarrow> service_node_info option" where
  "reserve_contributors cfg basis seen [] ps info = Some info"
| "reserve_contributors cfg basis seen (a # as) ps info =
     (if a \<in> set seen then None
      else let resultlo = mul_div_lo basis (hd ps) (STAKING_PORTIONS cfg)
           in reserve_contributors cfg basis (seen @ [a]) as (tl ps)
                (info\<lparr>contributors := contributors info @ [mk_contribution resultlo a],
                      total_reserved := total_reserved info + resultlo\<rparr>))"

definition is_registration_tx ::
  "config \<Rightarrow> chain \<Rightarrow> transaction \<Rightarrow> u64 \<Rightarrow> u64 \<Rightarrow> u32 \<Rightarrow>
   (public_key \<times> service_node_info) option" where
  "is_registration_tx cfg ch tx block_timestamp block_height index =
     (let hf_version = hard_fork_version_at ch block_height
      in case tx_register tx of
        None \<Rightarrow> None
      | Some r \<Rightarrow>
      (case tx_service_node_pubkey tx of
        None \<Rightarrow> None
      | Some service_node_key \<Rightarrow>
        if length (reg_portions r) \<noteq> length (reg_addresses r) \<or> reg_portions r = [] then None
        else if \<not> check_service_node_portions cfg ch (reg_portions r) then None
        else if reg_portions_for_operator r > STAKING_PORTIONS cfg then None
        else if \<not> reg_signature_ok r then None
        else if reg_expiration_timestamp r < block_timestamp then None
        else
          let staking_req = staking_requirement_at ch block_height;
              max_contribs = MAX_NUMBER_OF_CONTRIBUTORS cfg
          in case get_contribution cfg tx block_height of
            None \<Rightarrow> None
          | Some (addr, transferred) \<Rightarrow>
            let is_this_a_new_address = (if addr \<in> set (reg_addresses r) then 0 else 1 :: u64)
            in if word_of_nat (length (reg_addresses r)) + is_this_a_new_address > max_contribs
               then None
               else if hf_version < 12 \<and> transferred < staking_req div max_contribs then None
               else if hf_version \<ge> 12
                       \<and> (tx_burned_amount tx < tx_txnFee tx - tx_miner_fee tx
                            \<or> transferred < MIN_OPERATOR_V12 cfg * COIN cfg) then None
               else if hf_version \<ge> 12 \<and> hf_version < 17
                       \<and> transferred > MAX_OPERATOR_V12 cfg * COIN cfg then None
               else
                 let info0 = empty_info\<lparr>staking_requirement := staking_req,
                               operator_address := hd (reg_addresses r),
                               portions_for_operator := reg_portions_for_operator r,
                               registration_height := block_height,
                               last_reward_block_height := block_height,
                               last_reward_transaction_index := index,
                               total_contributed := 0, total_reserved := 0\<rparr>;
                     info1 = (if hf_version \<ge> 5
                              then info0\<lparr>version := version_1_swarms,
                                         swarm_id := UNASSIGNED_SWARM_ID cfg\<rparr>
                              else info0);
                     basis = (if hf_version < 12 then staking_req
                              else if hf_version < 17 then MAX_OPERATOR_V12 cfg * COIN cfg
                              else staking_req)
                 in (case reserve_contributors cfg basis [] (reg_addresses r) (reg_portions r)
                            info1 of
                       None \<Rightarrow> None
                     | Some info \<Rightarrow> Some (service_node_key, info))))"

definition process_registration_tx ::
  "config \<Rightarrow> chain \<Rightarrow> transaction \<Rightarrow> u64 \<Rightarrow> u64 \<Rightarrow> u32 \<Rightarrow> service_node_list \<Rightarrow>
   bool \<times> service_node_list" where
  "process_registration_tx cfg ch tx block_timestamp block_height index st =
     (case is_registration_tx cfg ch tx block_timestamp block_height index of
        None \<Rightarrow> (False, st)
      | Some (key, info) \<Rightarrow>
          (case map_of (m_service_nodes_infos st) key of
             Some old_info \<Rightarrow>
               if hard_fork_version_at ch block_height \<ge> 5 then
                 (let expiry_height = registration_height old_info + lock_blocks cfg
                  in if block_height < expiry_height then (False, st)
                     else
                       let info' = info\<lparr>last_reward_block_height :=
                                           last_reward_block_height old_info,
                                         last_reward_transaction_index :=
                                           last_reward_transaction_index old_info\<rparr>
                       in (True, st\<lparr>m_rollback_events :=
                                      m_rollback_events st @ [Rollback_new block_height key],
                                    m_service_nodes_infos :=
                                      assign key info' (m_service_nodes_infos st)\<rparr>))
               else (False, st)
           | None \<Rightarrow>
               (True, st\<lparr>m_rollback_events :=
                            m_rollback_events st @ [Rollback_new block_height key],
                          m_service_nodes_infos :=
                            assign key info (m_service_nodes_infos st)\<rparr>)))"

fun find_contributor :: "account_public_address \<Rightarrow> contribution list \<Rightarrow> nat option" where
  "find_contributor a [] = None"
| "find_contributor a (c # cs) =
     (if address c = a then Some 0
      else (case find_contributor a cs of None \<Rightarrow> None | Some i \<Rightarrow> Some (Suc i)))"

text \<open>
  The update of \<open>process_contribution_tx\<close> once the contribution is accepted: \<open>i\<close> is the
  position of the contributor in \<open>contributors\<close>.
\<close>

definition apply_contribution ::
  "config \<Rightarrow> hf_version \<Rightarrow> service_node_info \<Rightarrow> nat \<Rightarrow> u64 \<Rightarrow> u64 \<Rightarrow> u32 \<Rightarrow> service_node_info"
  where
  "apply_contribution cfg hf_version info i transferred block_height index =
     (let contributor = contributors info ! i;
          staking_req = (if hf_version < 12 then staking_requirement info
                         else if hf_version < 17 then MAX_POOL_STAKERS_V12 cfg * COIN cfg
                         else staking_requirement info);
          can_increase_reserved_by = staking_req - total_reserved info;
          max_amount = reserved contributor + can_increase_reserved_by;
          transferred' = min (max_amount - amount contributor) transferred;
          amount' = amount contributor + transferred';
          over = amount' > reserved contributor;
          contributor' = contributor\<lparr>amount := amount',
                            reserved := (if over then amount' else reserved contributor)\<rparr>
      in info\<lparr>contributors := (contributors info)[i := contributor'],
              total_contributed := total_contributed info + transferred',
              total_reserved := (if over
                                 then total_reserved info + (amount' - reserved contributor)
                                 else total_reserved info),
              last_reward_block_height := block_height,
              last_reward_transaction_index := index\<rparr>)"

definition process_contribution_tx ::
  "config \<Rightarrow> chain \<Rightarrow> transaction \<Rightarrow> u64 \<Rightarrow> u32 \<Rightarrow> service_node_list \<Rightarrow> service_node_list"
  where
  "process_contribution_tx cfg ch tx block_height index st =
     (case tx_service_node_pubkey tx of
        None \<Rightarrow> st
      | Some pubkey \<Rightarrow>
      (case map_of (m_service_nodes_infos st) pubkey of
        None \<Rightarrow> st
      | Some info \<Rightarrow>
        let hf_version = hard_fork_version_at ch block_height;
            block_for_unlock = (if hf_version \<ge> 12 then registration_height info
                                else block_height)
        in case get_contribution cfg tx block_for_unlock of
          None \<Rightarrow> st
        | Some (addr, transferred) \<Rightarrow>
          if is_fully_funded info then st
          else if hf_version \<ge> 12
                  \<and> (let burn_fee = tx_txnFee tx - tx_miner_fee tx;
                          b_fee = (if hf_version < 16 then transferred div 1000 else 1)
                      in burn_fee < b_fee
                         \<or> tx_burned_amount tx < tx_txnFee tx - tx_miner_fee tx
                         \<or> transferred < MIN_POOL_STAKERS_V12 cfg * COIN cfg) then st
          else if hf_version \<ge> 12 \<and> hf_version < 17
                  \<and> transferred > MAX_POOL_STAKERS_V12 cfg * COIN cfg then st
          else
            let max_contribs = (if hf_version > 11 then MAX_NUMBER_OF_CONTRIBUTORS_V3 cfg
                                else if hf_version > 9 then MAX_NUMBER_OF_CONTRIBUTORS_V2 cfg
                                else MAX_NUMBER_OF_CONTRIBUTORS cfg);
                contrib_iter = find_contributor addr (contributors info)
            in if contrib_iter = None
                  \<and> (word_of_nat (length (contributors info)) \<ge> max_contribs
                       \<or> transferred < min_node_contribution ch hf_version
                                          (staking_requirement info) (total_reserved info))
               then st
               else
                 let info1 = (case contrib_iter of
                                None \<Rightarrow> info\<lparr>contributors :=
                                            contributors info @ [mk_contribution 0 addr]\<rparr>
                              | Some i \<Rightarrow> info);
                     i = (case contrib_iter of None \<Rightarrow> length (contributors info)
                          | Some i \<Rightarrow> i)
                 in st\<lparr>m_rollback_events :=
                          m_rollback_events st @ [Rollback_change block_height pubkey info],
                        m_service_nodes_infos :=
                          assign pubkey
                            (apply_contribution cfg hf_version info1 i transferred
                               block_height index)
                            (m_service_nodes_infos st)\<rparr>))"

definition get_quorum_state :: "service_node_list \<Rightarrow> u64 \<Rightarrow> quorum_state" where
  "get_quorum_state st height =
     (case m_quorum_states st height of None \<Rightarrow> empty_quorum_state | Some q \<Rightarrow> q)"

definition process_deregistration_tx ::
  "transaction \<Rightarrow> u64 \<Rightarrow> service_node_list \<Rightarrow> bool \<times> service_node_list" where
  "process_deregistration_tx tx block_height st =
     (if tx_type tx \<noteq> Deregister then (False, st)
      else case tx_deregister tx of
        None \<Rightarrow> (False, st)
      | Some (dereg_height, service_node_index) \<Rightarrow>
          let state = get_quorum_state st dereg_height
          in if unat service_node_index \<ge> length (nodes_to_test state) then (False, st)
             else
               let key = nodes_to_test state ! unat service_node_index
               in (case map_of (m_service_nodes_infos st) key of
                     None \<Rightarrow> (False, st)
                   | Some info \<Rightarrow>
                       (True, st\<lparr>m_rollback_events :=
                                    m_rollback_events st
                                      @ [Rollback_change block_height key info],
                                  m_service_nodes_infos :=
                                    erase key (m_service_nodes_infos st)\<rparr>)))"

text \<open>The keys registered by the transactions of a stored block (hard forks before 5).\<close>

fun registered_keys ::
  "config \<Rightarrow> chain \<Rightarrow> u64 \<Rightarrow> u64 \<Rightarrow> u32 \<Rightarrow> transaction list \<Rightarrow> public_key list" where
  "registered_keys cfg ch block_timestamp block_height index [] = []"
| "registered_keys cfg ch block_timestamp block_height index (tx # txs) =
     (case is_registration_tx cfg ch tx block_timestamp block_height index of
        None \<Rightarrow> registered_keys cfg ch block_timestamp block_height (index + 1) txs
      | Some (key, info) \<Rightarrow>
          key # registered_keys cfg ch block_timestamp block_height (index + 1) txs)"

definition get_expired_nodes ::
  "config \<Rightarrow> chain \<Rightarrow> service_node_list \<Rightarrow> u64 \<Rightarrow> public_key list" where
  "get_expired_nodes cfg ch st block_height =
     (let hard_fork_version = hard_fork_version_at ch block_height;
          lock = (if hard_fork_version \<ge> 5
                  then lock_blocks cfg + STAKING_REQUIREMENT_LOCK_BLOCKS_EXCESS cfg
                  else lock_blocks cfg)
      in if block_height < lock then []
         else if hard_fork_version \<ge> 5 then
           map fst (filter (\<lambda>p. block_height > registration_height (snd p) + lock)
                      (m_service_nodes_infos st))
         else
           (let expired_nodes_block_height = block_height - lock
            in case stored_block ch expired_nodes_block_height of
                 None \<Rightarrow> []
               | Some (block_timestamp, txs) \<Rightarrow>
                   registered_keys cfg ch block_timestamp expired_nodes_block_height 0 txs))"

text \<open>
  The expiry loop of \<open>process_block\<close>: the state and the counter \<open>expired_count\<close>.
\<close>

definition expire_node ::
  "u64 \<Rightarrow> service_node_list \<times> nat \<Rightarrow> public_key \<Rightarrow> service_node_list \<times> nat" where
  "expire_node block_height sc pubkey =
     (case map_of (m_service_nodes_infos (fst sc)) pubkey of
        None \<Rightarrow> sc
      | Some info \<Rightarrow>
          ((fst sc)\<lparr>m_rollback_events :=
                      m_rollback_events (fst sc) @ [Rollback_change block_height pubkey info],
                    m_service_nodes_infos := erase pubkey (m_service_nodes_infos (fst sc))\<rparr>,
           Suc (snd sc)))"

definition expire_nodes ::
  "config \<Rightarrow> chain \<Rightarrow> u64 \<Rightarrow> service_node_list \<Rightarrow> service_node_list \<times> nat" where
  "expire_nodes cfg ch block_height st =
     foldl (expire_node block_height) (st, 0) (get_expired_nodes cfg ch st block_height)"

text \<open>The winner bump of \<open>process_block\<close>.\<close>

definition bump_winner :: "u64 \<Rightarrow> public_key \<Rightarrow> service_node_list \<Rightarrow> service_node_list" where
  "bump_winner block_height winner_pubkey st =
     (case map_of (m_service_nodes_infos st) winner_pubkey of
        None \<Rightarrow> st
      | Some info \<Rightarrow>
          st\<lparr>m_rollback_events :=
               m_rollback_events st @ [Rollback_change block_height winner_pubkey info],
             m_service_nodes_infos :=
               assign winner_pubkey
                 (info\<lparr>last_reward_block_height := block_height,
                        last_reward_transaction_index := - 1\<rparr>)
                 (m_service_nodes_infos st)\<rparr>)"

text \<open>
  The transaction loop of \<open>process_block\<close>; the triple holds the state and the counters
  \<open>registrations\<close> and \<open>deregistrations\<close>.  \<open>process_swap_tx\<close> reads the transaction and
  returns a flag that the loop drops; it writes nothing.
\<close>

definition process_tx ::
  "config \<Rightarrow> chain \<Rightarrow> block \<Rightarrow> transaction \<Rightarrow> u32 \<Rightarrow> service_node_list \<times> nat \<times> nat \<Rightarrow>
   service_node_list \<times> nat \<times> nat" where
  "process_tx cfg ch b tx index acc =
     (let hard_fork_version = hard_fork_version_at ch (blk_height b);
          st = fst acc; registrations = fst (snd acc); deregistrations = snd (snd acc)
      in if (hard_fork_version \<ge> 18 \<and> tx_type tx = Stake)
            \<or> (hard_fork_version \<le> 17 \<and> tx_type tx = Standard)
         then
           (let r = process_registration_tx cfg ch tx (blk_timestamp b) (blk_height b) index st
            in (process_contribution_tx cfg ch tx (blk_height b) index (snd r),
                (if fst r then Suc registrations else registrations), deregistrations))
         else if (hard_fork_version \<ge> 18 \<and> tx_type tx = Swap)
                 \<or> (hard_fork_version \<le> 17 \<and> tx_type tx = Standard)
         then acc
         else if tx_type tx = Deregister
         then
           (let r = process_deregistration_tx tx (blk_height b) st
            in (snd r, registrations, (if fst r then Suc deregistrations else deregistrations)))
         else acc)"

fun process_txs ::
  "config \<Rightarrow> chain \<Rightarrow> block \<Rightarrow> u32 \<Rightarrow> transaction list \<Rightarrow> service_node_list \<times> nat \<times> nat \<Rightarrow>
   service_node_list \<times> nat \<times> nat" where
  "process_txs cfg ch b index [] acc = acc"
| "process_txs cfg ch b index (tx # txs) acc =
     process_txs cfg ch b (index + 1) txs (process_tx cfg ch b tx index acc)"

text \<open>
  \<open>update_swarms\<close>.  The swarm map is an association list ordered by swarm id, each swarm
  holding its keys in the order they were pushed.
\<close>

fun swarm_push ::
  "u64 \<Rightarrow> public_key \<Rightarrow> (u64 \<times> public_key list) list \<Rightarrow> (u64 \<times> public_key list) list" where
  "swarm_push sid k [] = [(sid, [k])]"
| "swarm_push sid k (e # rest) =
     (if sid = fst e then (fst e, snd e @ [k]) # rest
      else if sid < fst e then (sid, [k]) # e # rest
      else e # swarm_push sid k rest)"

definition gather_swarms :: "registry \<Rightarrow> (u64 \<times> public_key list) list" where
  "gather_swarms reg = foldl (\<lambda>m p. swarm_push (swarm_id (snd p)) (fst p) m) [] reg"

fun apply_swarm_changes ::
  "u64 \<Rightarrow> (u64 \<times> public_key) list \<Rightarrow> service_node_list \<Rightarrow> service_node_list outcome" where
  "apply_swarm_changes height [] st = Done st"
| "apply_swarm_changes height (e # rest) st =
     (case map_of (m_service_nodes_infos st) (snd e) of
        None \<Rightarrow> Aborted st
      | Some sn_info \<Rightarrow>
          if swarm_id sn_info = fst e then apply_swarm_changes height rest st
          else apply_swarm_changes height rest
                 (st\<lparr>m_rollback_events :=
                        m_rollback_events st @ [Rollback_change height (snd e) sn_info],
                      m_service_nodes_infos :=
                        assign (snd e) (sn_info\<lparr>swarm_id := fst e\<rparr>)
                          (m_service_nodes_infos st)\<rparr>))"

definition update_swarms :: "chain \<Rightarrow> u64 \<Rightarrow> service_node_list \<Rightarrow> service_node_list outcome"
  where
  "update_swarms ch height st =
     (let existing_swarms =
            calc_swarm_changes ch height (gather_swarms (m_service_nodes_infos st))
      in apply_swarm_changes height
           (concat (map (\<lambda>e. map (\<lambda>k. (fst e, k)) (snd e)) existing_swarms)) st)"

definition store_quorum_state_from_rewards_list ::
  "config \<Rightarrow> chain \<Rightarrow> u64 \<Rightarrow> service_node_list \<Rightarrow> service_node_list" where
  "store_quorum_state_from_rewards_list cfg ch height st =
     (if block_id_null ch height then st
      else
        let full_node_list =
              get_service_nodes_pubkeys (hard_fork_version_at ch (m_height st))
                (m_service_nodes_infos st)
        in st\<lparr>m_quorum_states :=
                (m_quorum_states st)
                  (height \<mapsto> build_quorum_state cfg (shuffle_draw ch height) full_node_list)\<rparr>)"

text \<open>
  The tail of \<open>process_block\<close>: the quorum for the block is stored and the quorum states
  below the retention window are erased from the front of the ordered map.
\<close>

definition cache_quorum :: "config \<Rightarrow> chain \<Rightarrow> u64 \<Rightarrow> service_node_list \<Rightarrow> service_node_list"
  where
  "cache_quorum cfg ch block_height st =
     (let deregister_lifetime =
            (if hard_fork_version_at ch block_height \<ge> 8
             then DEREGISTER_LIFETIME_BY_HEIGHT_V2 cfg else DEREGISTER_LIFETIME_BY_HEIGHT cfg);
          QUORUM_LIFETIME = 6 * deregister_lifetime;
          cache_state_from_height =
            (if block_height < QUORUM_LIFETIME then 0 else block_height - QUORUM_LIFETIME);
          st1 = store_quorum_state_from_rewards_list cfg ch block_height st
      in st1\<lparr>m_quorum_states :=
               (\<lambda>h. if h < cache_state_from_height then None else m_quorum_states st1 h)\<rparr>)"

text \<open>
  \<open>process_block\<close>.  The assertion \<open>m_height == block_height\<close> ends the operation when it
  fails; an exception of \<open>update_swarms\<close> leaves it with the state written so far.
\<close>

definition process_block ::
  "config \<Rightarrow> chain \<Rightarrow> block \<Rightarrow> transaction list \<Rightarrow> service_node_list \<Rightarrow>
   service_node_list outcome" where
  "process_block cfg ch b txs st =
     (let block_height = blk_height b;
          hard_fork_version = hard_fork_version_at ch block_height
      in if hard_fork_version < 5 then Done st
         else if m_height st \<noteq> block_height then Aborted st
         else
           let cull_height = (if block_height < 30 then block_height else block_height - 30);
               st1 = st\<lparr>m_height := m_height st + 1,
                        m_rollback_events :=
                          Prevent_rollback cull_height
                            # dropWhile (\<lambda>e. m_block_height e < cull_height)
                                (m_rollback_events st)\<rparr>;
               ex = expire_nodes cfg ch block_height st1;
               st2 = bump_winner block_height (blk_winner b) (fst ex);
               acc = process_txs cfg ch b 0 txs (st2, 0, 0);
               st3 = fst acc
           in if fst (snd acc) \<noteq> 0 \<or> snd (snd acc) \<noteq> 0 \<or> snd ex \<noteq> 0
              then (case update_swarms ch block_height st3 of
                      Aborted st4 \<Rightarrow> Aborted st4
                    | Done st4 \<Rightarrow> Done (cache_quorum cfg ch block_height st4))
              else Done (cache_quorum cfg ch block_height st3))"

section \<open>Rollback journal\<close>

text \<open>\<open>rollback_event::apply\<close> for the three kinds of event; \<open>None\<close> is the \<open>false\<close> return.\<close>

fun apply_event :: "rollback_event \<Rightarrow> registry \<Rightarrow> registry option" where
  "apply_event (Rollback_change h k info) reg = Some (assign k info reg)"
| "apply_event (Rollback_new h k) reg =
     (if map_of reg k = None then None else Some (erase k reg))"
| "apply_event (Prevent_rollback h) reg = None"

text \<open>
  The first loop of \<open>blockchain_detached\<close>, on the journal read from its back: the result
  holds the events left (back first), the registry, and whether every \<open>apply\<close> succeeded.
\<close>

fun undo_events ::
  "u64 \<Rightarrow> rollback_event list \<Rightarrow> registry \<Rightarrow> rollback_event list \<times> registry \<times> bool" where
  "undo_events height [] reg = ([], reg, True)"
| "undo_events height (e # es) reg =
     (if m_block_height e \<ge> height
      then (case apply_event e reg of
              None \<Rightarrow> (e # es, reg, False)
            | Some reg' \<Rightarrow> undo_events height es reg')
      else (e # es, reg, True))"

text \<open>
  \<open>blockchain_detached\<close>.  \<open>reinit\<close> is the state that \<open>init ()\<close> leaves when an event
  cannot be applied.
\<close>

definition blockchain_detached ::
  "service_node_list \<Rightarrow> u64 \<Rightarrow> service_node_list \<Rightarrow> service_node_list" where
  "blockchain_detached reinit height st =
     (let u = undo_events height (rev (m_rollback_events st)) (m_service_nodes_infos st);
          st1 = (if snd (snd u)
                 then st\<lparr>m_rollback_events := rev (fst u), m_service_nodes_infos := fst (snd u)\<rparr>
                 else reinit)
      in st1\<lparr>m_quorum_states := (\<lambda>h. if h \<ge> height then None else m_quorum_states st1 h),
             m_height := height\<rparr>)"

section \<open>Transaction pool\<close>

type_synonym hash = nat
type_synonym key_image = nat
type_synonym blobdata = nat
type_synonym time_t = int

definition null_hash :: hash where
  "null_hash = 0"

datatype relay_method = Relay_none | Relay_local | Relay_stem | Relay_fluff | Relay_block

datatype relay_category = Category_broadcasted | Category_relayable | Category_legacy | Category_all

text \<open>
  The metadata kept for a pool transaction (the padding of \<open>txpool_tx_meta_t\<close> is left
  out).
\<close>

record txpool_tx_meta =
  meta_max_used_block_id :: hash
  meta_last_failed_id :: hash
  meta_weight :: u64
  meta_fee :: u64
  meta_max_used_block_height :: u64
  meta_last_failed_height :: u64
  meta_receive_time :: time_t
  meta_last_relayed_time :: time_t
  meta_kept_by_block :: bool
  meta_relayed :: bool
  meta_double_spend_seen :: bool
  meta_pruned :: bool
  meta_is_deregister :: bool
  meta_relay_method :: relay_method

text \<open>The value-initialised metadata \<open>txpool_tx_meta_t meta{}\<close>.\<close>

definition empty_meta :: txpool_tx_meta where
  "empty_meta = \<lparr>meta_max_used_block_id = 0, meta_last_failed_id = 0, meta_weight = 0,
     meta_fee = 0, meta_max_used_block_height = 0,
     meta_last_failed_height = 0, meta_receive_time = 0, meta_last_relayed_time = 0,
     meta_kept_by_block = False, meta_relayed = False, meta_double_spend_seen = False,
     meta_pruned = False, meta_is_deregister = False, meta_relay_method = Relay_none\<rparr>"

text \<open>
  Modelled from the spec: \<open>txpool_tx_meta_t::set_relay_method\<close>,
  \<open>txpool_tx_meta_t::upgrade_relay_method\<close> and the flag \<open>dandelionpp_stem\<close> are declared
  in a header outside the verified files.  Setting the method records it and sets
  \<open>kept_by_block\<close> exactly for the method \<open>block\<close>; the upgrades allowed are none to any
  other method, local to fluff or block, stem to fluff or block, and fluff to block; the
  upgrade reports whether it changed the method.
\<close>

definition set_relay_method :: "txpool_tx_meta \<Rightarrow> relay_method \<Rightarrow> txpool_tx_meta" where
  "set_relay_method m r = m\<lparr>meta_relay_method := r, meta_kept_by_block := (r = Relay_block)\<rparr>"

definition relay_upgrade_allowed :: "relay_method \<Rightarrow> relay_method \<Rightarrow> bool" where
  "relay_upgrade_allowed a b \<longleftrightarrow>
     (a = Relay_none \<and> b \<in> {Relay_local, Relay_stem, Relay_fluff, Relay_block})
     \<or> (a = Relay_local \<and> b \<in> {Relay_fluff, Relay_block})
     \<or> (a = Relay_stem \<and> b \<in> {Relay_fluff, Relay_block})
     \<or> (a = Relay_fluff \<and> b = Relay_block)"

definition upgrade_relay_method :: "txpool_tx_meta \<Rightarrow> relay_method \<Rightarrow> bool \<times> txpool_tx_meta"
  where
  "upgrade_relay_method m r =
     (if relay_upgrade_allowed (meta_relay_method m) r then (True, set_relay_method m r)
      else (False, m))"

definition dandelionpp_stem :: "txpool_tx_meta \<Rightarrow> bool" where
  "dandelionpp_stem m \<longleftrightarrow> meta_relay_method m = Relay_stem"

text \<open>
  The key of the ordering container: the deregister flag, the fee per byte (kept as the pair
  of fee and weight whose quotient the source stores as a \<open>double\<close>) and the receive time.
\<close>

type_synonym tx_key = "bool \<times> (u64 \<times> u64) \<times> time_t"

record tx_verification_context =
  m_verification_failed :: bool
  m_fee_too_low :: bool
  m_too_big :: bool
  m_double_spend :: bool
  m_invalid_input :: bool
  m_invalid_output :: bool
  m_verification_impossible :: bool
  m_added_to_pool :: bool
  m_relay :: relay_method

text \<open>
  A transaction as the pool reads it: its version and type, the answers of its methods
  \<open>is_transfer\<close> and \<open>is_deregister_tx\<close> (defined outside the verified files), the flag
  \<open>pruned\<close>, its inputs, and the deregistration that
  \<open>get_service_node_deregister_from_tx_extra\<close> reads from its extra field (block height
  and service-node index; \<open>None\<close> when that call fails).
\<close>

datatype txin_v = Txin_gen | Txin_to_script | Txin_to_scripthash | Txin_to_key key_image

record pool_tx =
  ptx_version :: nat
  ptx_type :: txtype
  ptx_is_transfer :: bool
  ptx_is_deregister :: bool
  ptx_pruned :: bool
  ptx_vin :: "txin_v list"
  ptx_deregister :: "(u64 \<times> u32) option"

text \<open>
  The pool.  The ordering container \<open>m_txs_by_fee_and_receive_time\<close> is the list of its
  entries in iteration order (head is \<open>begin ()\<close>).  \<open>txpool_store\<close> is the pool table of
  the database behind \<open>m_blockchain\<close>: metadata and blob for each transaction id.  The
  hash maps \<open>m_spent_key_images\<close>, \<open>m_parsed_tx_cache\<close> and \<open>m_input_cache\<close> are
  association lists with one pair for each key; the set of transaction ids held for a key
  image is a list without repetition, in which only the element of a one-element set is
  ever read.
\<close>

record tx_memory_pool =
  m_txs_by_fee_and_receive_time :: "(tx_key \<times> hash) list"
  txpool_store :: "(hash \<times> txpool_tx_meta \<times> blobdata) list"
  m_spent_key_images :: "(key_image \<times> hash list) list"
  m_timed_out_transactions :: "hash set"
  m_parsed_tx_cache :: "(hash \<times> pool_tx) list"
  m_input_cache :: "(hash \<times> bool \<times> tx_verification_context \<times> u64 \<times> hash) list"
  m_txpool_weight :: u64
  m_txpool_max_weight :: u64
  m_cookie :: u64

text \<open>
  Answers of the blockchain, the clock and the helpers outside the verified file.
  \<open>pe_now\<close> is the clock, read as one instant during a call.  \<open>pe_time_max\<close> is the largest
  value of the type of the field \<open>last_relayed_time\<close>.  \<open>pe_get_tx_miner_fee\<close> is the
  result of \<open>get_tx_miner_fee\<close> for a transaction and the fee-burning flag: the returned flag
  and the content of the variable \<open>fee\<close> after the call, which the source does not
  initialise, so that on failure it is whatever the variable held.  \<open>pe_check_tx_outputs\<close>
  and \<open>pe_check_tx_inputs\<close> are the checks of the blockchain; they receive the verification
  context and return it, the second one with the height and id of the newest block the
  inputs use.  \<open>pe_matches_category\<close> says whether metadata belongs to a relay category,
  \<open>pe_include_sensitive\<close> is the default of the second parameter of \<open>get_transactions\<close>,
  the three parsers read a blob, \<open>pe_tx_order\<close> is the comparator of the ordering
  container, \<open>pe_db_write_ok\<close> is false when the first write of a call to the database
  throws (nothing is written then), and
  \<open>pe_abort_undoes\<close> says whether leaving the scope of a \<open>LockedTXN\<close> without \<open>commit\<close>
  takes back the database writes made inside it.
\<close>

record pool_env =
  pe_now :: time_t
  pe_time_max :: time_t
  pe_inputs_types_supported :: "pool_tx \<Rightarrow> bool"
  pe_get_tx_miner_fee :: "pool_tx \<Rightarrow> bool \<Rightarrow> bool \<times> u64"
  pe_check_fee :: "u64 \<Rightarrow> u64 \<Rightarrow> bool"
  pe_min_block_weight :: "hf_version \<Rightarrow> u64"
  pe_check_tx_outputs ::
    "pool_tx \<Rightarrow> tx_verification_context \<Rightarrow> bool \<times> tx_verification_context"
  pe_check_tx_inputs ::
    "pool_tx \<Rightarrow> tx_verification_context \<Rightarrow> bool \<Rightarrow> bool \<times> tx_verification_context \<times> u64 \<times> hash"
  pe_matches_category :: "txpool_tx_meta \<Rightarrow> relay_category \<Rightarrow> bool"
  pe_include_sensitive :: bool
  pe_parse_tx :: "blobdata \<Rightarrow> pool_tx option"
  pe_parse_tx_base :: "blobdata \<Rightarrow> pool_tx option"
  pe_parse_tx_prefix :: "blobdata \<Rightarrow> pool_tx option"
  pe_tx_order :: "tx_key \<times> hash \<Rightarrow> tx_key \<times> hash \<Rightarrow> bool"
  pe_db_write_ok :: bool
  pe_abort_undoes :: bool
  MEMPOOL_PRUNE_DEREGISTER_LIFETIME :: time_t
  CRYPTONOTE_COINBASE_BLOB_RESERVED_SIZE :: u64
  HF_VERSION_FEE_BURNING :: hf_version
  HF_VERSION_PER_BYTE_FEE :: hf_version

definition get_transaction_weight_limit :: "pool_env \<Rightarrow> hf_version \<Rightarrow> u64" where
  "get_transaction_weight_limit env v =
     (if v \<ge> 8 then pe_min_block_weight env v div 2 - CRYPTONOTE_COINBASE_BLOB_RESERVED_SIZE env
      else pe_min_block_weight env v - CRYPTONOTE_COINBASE_BLOB_RESERVED_SIZE env)"

text \<open>
  Association lists as hash maps: \<open>put_entry\<close> sets the value of a key, \<open>insert_entry\<close>
  is \<open>insert\<close>, which keeps the value of a key that is present, and \<open>drop_entry\<close> is
  \<open>erase\<close>.
\<close>

fun put_entry :: "'k \<Rightarrow> 'v \<Rightarrow> ('k \<times> 'v) list \<Rightarrow> ('k \<times> 'v) list" where
  "put_entry k v [] = [(k, v)]"
| "put_entry k v (p # ps) = (if fst p = k then (k, v) # ps else p # put_entry k v ps)"

definition insert_entry :: "'k \<Rightarrow> 'v \<Rightarrow> ('k \<times> 'v) list \<Rightarrow> ('k \<times> 'v) list" where
  "insert_entry k v xs = (if map_of xs k = None then xs @ [(k, v)] else xs)"

definition drop_entry :: "'k \<Rightarrow> ('k \<times> 'v) list \<Rightarrow> ('k \<times> 'v) list" where
  "drop_entry k xs = filter (\<lambda>p. fst p \<noteq> k) xs"

text \<open>
  Modelled from the spec: the calls \<open>get_txpool_tx_meta\<close>, \<open>get_txpool_tx_blob\<close>,
  \<open>add_txpool_tx\<close>, \<open>remove_txpool_tx\<close>, \<open>update_txpool_tx\<close> and
  \<open>txpool_tx_matches_category\<close> of the blockchain object are outside the verified files.
  They look up, insert, remove and replace the entry of a transaction id in the backing
  store; a transaction that is not stored matches no category.
\<close>

definition get_txpool_tx_meta :: "hash \<Rightarrow> tx_memory_pool \<Rightarrow> txpool_tx_meta option" where
  "get_txpool_tx_meta txid pool = map_option fst (map_of (txpool_store pool) txid)"

definition get_txpool_tx_blob :: "hash \<Rightarrow> tx_memory_pool \<Rightarrow> blobdata option" where
  "get_txpool_tx_blob txid pool = map_option snd (map_of (txpool_store pool) txid)"

definition add_txpool_tx ::
  "hash \<Rightarrow> blobdata \<Rightarrow> txpool_tx_meta \<Rightarrow> tx_memory_pool \<Rightarrow> tx_memory_pool" where
  "add_txpool_tx txid blob meta pool =
     pool\<lparr>txpool_store := put_entry txid (meta, blob) (txpool_store pool)\<rparr>"

definition remove_txpool_tx :: "hash \<Rightarrow> tx_memory_pool \<Rightarrow> tx_memory_pool" where
  "remove_txpool_tx txid pool = pool\<lparr>txpool_store := drop_entry txid (txpool_store pool)\<rparr>"

definition update_txpool_tx :: "hash \<Rightarrow> txpool_tx_meta \<Rightarrow> tx_memory_pool \<Rightarrow> tx_memory_pool" where
  "update_txpool_tx txid meta pool =
     pool\<lparr>txpool_store :=
            map (\<lambda>p. if fst p = txid then (txid, (meta, snd (snd p))) else p) (txpool_store pool)\<rparr>"

definition txpool_tx_matches_category ::
  "pool_env \<Rightarrow> hash \<Rightarrow> relay_category \<Rightarrow> tx_memory_pool \<Rightarrow> bool" where
  "txpool_tx_matches_category env txid category pool =
     (case get_txpool_tx_meta txid pool of
        None \<Rightarrow> False
      | Some meta \<Rightarrow> pe_matches_category env meta category)"

text \<open>
  The end of a database transaction that is left without \<open>commit\<close>: the store is the one
  the function started with when the writes are taken back.
\<close>

definition abandon :: "pool_env \<Rightarrow> tx_memory_pool \<Rightarrow> tx_memory_pool \<Rightarrow> tx_memory_pool" where
  "abandon env pool0 pool =
     (if pe_abort_undoes env then pool\<lparr>txpool_store := txpool_store pool0\<rparr> else pool)"

text \<open>
  \<open>get_transactions\<close>: the transactions of the store that belong to the category asked
  for and whose blob parses.
\<close>

definition get_transactions :: "pool_env \<Rightarrow> bool \<Rightarrow> tx_memory_pool \<Rightarrow> pool_tx list" where
  "get_transactions env include_sensitive pool =
     (let category = (if include_sensitive then Category_all else Category_broadcasted)
      in List.map_filter
           (\<lambda>p. if pe_matches_category env (fst (snd p)) category
                then (if meta_pruned (fst (snd p)) then pe_parse_tx_base env (snd (snd p))
                      else pe_parse_tx env (snd (snd p)))
                else None)
           (txpool_store pool))"

text \<open>
  \<open>have_deregister_tx_already\<close>: whether a deregister of the pool names the same block
  height and service-node index as the transaction.
\<close>

definition have_deregister_tx_already :: "pool_env \<Rightarrow> pool_tx \<Rightarrow> tx_memory_pool \<Rightarrow> bool" where
  "have_deregister_tx_already env tx pool =
     (if ptx_is_transfer tx then False
      else case ptx_deregister tx of
             None \<Rightarrow> False
           | Some deregister \<Rightarrow>
               list_ex
                 (\<lambda>ptx. ptx_type ptx = Deregister
                        \<and> (case ptx_deregister ptx of
                             None \<Rightarrow> False
                           | Some pool_tx_deregister \<Rightarrow>
                               fst pool_tx_deregister = fst deregister
                               \<and> snd pool_tx_deregister = snd deregister))
                 (get_transactions env (pe_include_sensitive env) pool))"

definition have_tx_keyimg_as_spent ::
  "pool_env \<Rightarrow> key_image \<Rightarrow> hash \<Rightarrow> tx_memory_pool \<Rightarrow> bool" where
  "have_tx_keyimg_as_spent env key_im txid pool =
     (case map_of (m_spent_key_images pool) key_im of
        None \<Rightarrow> False
      | Some found \<Rightarrow>
          if found \<noteq> [] then
            (if 1 < length found \<or> hd found \<noteq> txid then True
             else txpool_tx_matches_category env txid Category_legacy pool)
          else False)"

fun have_tx_keyimges_as_spent_loop ::
  "pool_env \<Rightarrow> txin_v list \<Rightarrow> hash \<Rightarrow> tx_memory_pool \<Rightarrow> bool" where
  "have_tx_keyimges_as_spent_loop env [] txid pool = False"
| "have_tx_keyimges_as_spent_loop env (i # ins) txid pool =
     (case i of
        Txin_to_key k_image \<Rightarrow>
          if have_tx_keyimg_as_spent env k_image txid pool then True
          else have_tx_keyimges_as_spent_loop env ins txid pool
      | _ \<Rightarrow> True)"

definition have_tx_keyimges_as_spent ::
  "pool_env \<Rightarrow> pool_tx \<Rightarrow> hash \<Rightarrow> tx_memory_pool \<Rightarrow> bool" where
  "have_tx_keyimges_as_spent env tx txid pool =
     have_tx_keyimges_as_spent_loop env (ptx_vin tx) txid pool"

text \<open>
  \<open>mark_double_spend\<close>.  The inner loop sets the flag \<open>double_spend_seen\<close> of the stored
  transactions that use a key image; an update that throws is caught and the loop goes on.
  The third component of the outer loop is false when it was left by \<open>return\<close> at an input
  that is no key input.
\<close>

fun mark_txids :: "pool_env \<Rightarrow> hash list \<Rightarrow> tx_memory_pool \<Rightarrow> bool \<Rightarrow> tx_memory_pool \<times> bool"
  where
  "mark_txids env [] pool changed = (pool, changed)"
| "mark_txids env (txid # txids) pool changed =
     (case get_txpool_tx_meta txid pool of
        None \<Rightarrow> mark_txids env txids pool changed
      | Some meta \<Rightarrow>
          if \<not> meta_double_spend_seen meta then
            mark_txids env txids
              (if pe_db_write_ok env
               then update_txpool_tx txid (meta\<lparr>meta_double_spend_seen := True\<rparr>) pool
               else pool) True
          else mark_txids env txids pool changed)"

fun mark_double_spend_loop ::
  "pool_env \<Rightarrow> txin_v list \<Rightarrow> tx_memory_pool \<Rightarrow> bool \<Rightarrow> tx_memory_pool \<times> bool \<times> bool" where
  "mark_double_spend_loop env [] pool changed = (pool, changed, True)"
| "mark_double_spend_loop env (i # ins) pool changed =
     (case i of
        Txin_to_key k_image \<Rightarrow>
          (case map_of (m_spent_key_images pool) k_image of
             None \<Rightarrow> mark_double_spend_loop env ins pool changed
           | Some txids \<Rightarrow>
               (let r = mark_txids env txids pool changed
                in mark_double_spend_loop env ins (fst r) (snd r)))
      | _ \<Rightarrow> (pool, changed, False))"

definition mark_double_spend :: "pool_env \<Rightarrow> pool_tx \<Rightarrow> tx_memory_pool \<Rightarrow> tx_memory_pool" where
  "mark_double_spend env tx pool =
     (let r = mark_double_spend_loop env (ptx_vin tx) pool False;
          pool1 = fst r; changed = fst (snd r); finished = snd (snd r)
      in if \<not> finished then abandon env pool pool1
         else if changed then pool1\<lparr>m_cookie := m_cookie pool1 + 1\<rparr>
         else pool1)"

text \<open>
  \<open>insert_key_images\<close>.  Indexing \<open>m_spent_key_images\<close> with a key image creates its
  entry.  The cookie is bumped only when every input was inserted.
\<close>

fun insert_key_images_loop ::
  "pool_env \<Rightarrow> txin_v list \<Rightarrow> hash \<Rightarrow> relay_method \<Rightarrow> tx_memory_pool \<Rightarrow> bool \<times> tx_memory_pool"
  where
  "insert_key_images_loop env [] txid tx_relay pool = (True, pool)"
| "insert_key_images_loop env (i # ins) txid tx_relay pool =
     (case i of
        Txin_to_key k_image \<Rightarrow>
          (let kei_image_set = (case map_of (m_spent_key_images pool) k_image of
                                  None \<Rightarrow> [] | Some s \<Rightarrow> s);
               pool1 = pool\<lparr>m_spent_key_images :=
                              insert_entry k_image [] (m_spent_key_images pool)\<rparr>;
               one_txid = (kei_image_set = []
                           \<or> (length kei_image_set = 1 \<and> hd kei_image_set = txid))
           in if tx_relay \<noteq> Relay_block \<and> \<not> one_txid then (False, pool1)
              else
                let inserted = (txid \<notin> set kei_image_set);
                    pool2 = pool1\<lparr>m_spent_key_images :=
                              put_entry k_image
                                (if inserted then kei_image_set @ [txid] else kei_image_set)
                                (m_spent_key_images pool1)\<rparr>;
                    new_or_previously_private =
                      (inserted \<or> \<not> txpool_tx_matches_category env txid Category_legacy pool2)
                in if \<not> new_or_previously_private then (False, pool2)
                   else insert_key_images_loop env ins txid tx_relay pool2)
      | _ \<Rightarrow> (False, pool))"

definition insert_key_images ::
  "pool_env \<Rightarrow> pool_tx \<Rightarrow> hash \<Rightarrow> relay_method \<Rightarrow> tx_memory_pool \<Rightarrow> bool \<times> tx_memory_pool" where
  "insert_key_images env tx txid tx_relay pool =
     (let r = insert_key_images_loop env (ptx_vin tx) txid tx_relay pool
      in if fst r then (True, (snd r)\<lparr>m_cookie := m_cookie (snd r) + 1\<rparr>) else r)"

text \<open>
  \<open>remove_transaction_keyimages\<close>.  It returns early, before the cookie is bumped, at an
  input that is no key input or whose key image is not held for the transaction.
\<close>

fun remove_transaction_keyimages_loop ::
  "txin_v list \<Rightarrow> hash \<Rightarrow> tx_memory_pool \<Rightarrow> bool \<times> tx_memory_pool" where
  "remove_transaction_keyimages_loop [] actual_hash pool = (True, pool)"
| "remove_transaction_keyimages_loop (vi # vis) actual_hash pool =
     (case vi of
        Txin_to_key k_image \<Rightarrow>
          (case map_of (m_spent_key_images pool) k_image of
             None \<Rightarrow> (False, pool)
           | Some key_image_set \<Rightarrow>
               if key_image_set = [] then (False, pool)
               else if actual_hash \<notin> set key_image_set then (False, pool)
               else
                 let rest = remove1 actual_hash key_image_set;
                     pool1 = pool\<lparr>m_spent_key_images :=
                               (if rest = [] then drop_entry k_image (m_spent_key_images pool)
                                else put_entry k_image rest (m_spent_key_images pool))\<rparr>
                 in remove_transaction_keyimages_loop vis actual_hash pool1)
      | _ \<Rightarrow> (False, pool))"

definition remove_transaction_keyimages ::
  "pool_tx \<Rightarrow> hash \<Rightarrow> tx_memory_pool \<Rightarrow> bool \<times> tx_memory_pool" where
  "remove_transaction_keyimages tx actual_hash pool =
     (let r = remove_transaction_keyimages_loop (ptx_vin tx) actual_hash pool
      in if fst r then (True, (snd r)\<lparr>m_cookie := m_cookie (snd r) + 1\<rparr>) else r)"

text \<open>
  The loop of \<open>prune\<close> on the entries behind the first one, lowest priority first.  The
  result holds the entries that stay (in the same order), the pool, and the flag
  \<open>changed\<close>; the last component is false when the loop was left by \<open>return\<close>: the
  metadata is missing, the blob does not parse, or the removal from the database throws.
\<close>

fun prune_scan ::
  "pool_env \<Rightarrow> u64 \<Rightarrow> (tx_key \<times> hash) list \<Rightarrow> tx_memory_pool \<Rightarrow> bool \<Rightarrow>
   (tx_key \<times> hash) list \<times> tx_memory_pool \<times> bool \<times> bool" where
  "prune_scan env bytes [] pool changed = ([], pool, changed, True)"
| "prune_scan env bytes (e # es) pool changed =
     (let is_standard_tx = \<not> fst (fst e);
          receive_time = snd (snd (fst e))
      in if is_standard_tx \<or> receive_time \<ge> pe_now env - MEMPOOL_PRUNE_DEREGISTER_LIFETIME env
         then (e # es, pool, changed, True)
         else if m_txpool_weight pool \<le> bytes then (e # es, pool, changed, True)
         else (case get_txpool_tx_meta (snd e) pool of
                 None \<Rightarrow> (e # es, pool, changed, False)
               | Some meta \<Rightarrow>
                   if meta_kept_by_block meta then
                     (let r = prune_scan env bytes es pool changed
                      in (e # fst r, snd r))
                   else
                     (case Option.bind (get_txpool_tx_blob (snd e) pool) (pe_parse_tx_prefix env) of
                        None \<Rightarrow> (e # es, pool, changed, False)
                      | Some tx \<Rightarrow>
                          if \<not> pe_db_write_ok env then (e # es, pool, changed, False)
                          else
                            let pool1 = remove_txpool_tx (snd e) pool;
                                pool2 = pool1\<lparr>m_txpool_weight :=
                                                m_txpool_weight pool1 - meta_weight meta\<rparr>;
                                pool3 = snd (remove_transaction_keyimages tx (snd e) pool2)
                            in prune_scan env bytes es pool3 True)))"

text \<open>
  \<open>prune\<close>.  The iterator starts at the last entry and the loop ends at \<open>begin ()\<close>, so the
  first entry is never examined; on an empty container the decrement of \<open>end ()\<close> is
  undefined and the model leaves the pool as it is.  Each removal bumps the cookie in
  \<open>remove_transaction_keyimages\<close>, and the cookie is bumped once more when the loop ends
  normally after a removal.
\<close>

definition prune :: "pool_env \<Rightarrow> u64 \<Rightarrow> tx_memory_pool \<Rightarrow> tx_memory_pool" where
  "prune env bytes0 pool =
     (let bytes = (if bytes0 = 0 then m_txpool_max_weight pool else bytes0)
      in case m_txs_by_fee_and_receive_time pool of
           [] \<Rightarrow> pool
         | first # rest \<Rightarrow>
             (let r = prune_scan env bytes (rev rest) pool False;
                  kept = fst r; changed = fst (snd (snd r)); finished = snd (snd (snd r));
                  pool1 = (fst (snd r))\<lparr>m_txs_by_fee_and_receive_time := first # rev kept\<rparr>
              in if \<not> finished then abandon env pool pool1
                 else if changed then pool1\<lparr>m_cookie := m_cookie pool1 + 1\<rparr>
                 else pool1))"

text \<open>
  Modelled from the spec: the ordering container is declared outside the verified files;
  it is the spec's ordering multiset, so \<open>emplace\<close> puts an entry behind every entry that
  does not come after it.
\<close>

definition emplace ::
  "pool_env \<Rightarrow> tx_key \<times> hash \<Rightarrow> (tx_key \<times> hash) list \<Rightarrow> (tx_key \<times> hash) list" where
  "emplace env x xs =
     takeWhile (\<lambda>y. \<not> pe_tx_order env x y) xs @ x # dropWhile (\<lambda>y. \<not> pe_tx_order env x y) xs"

text \<open>
  \<open>check_tx_inputs\<close> of the pool: the answer of the blockchain, remembered in
  \<open>m_input_cache\<close> for a transaction that is not kept by a block.  The result holds the
  returned flag, the verification context, the height and id of the newest block used, and
  the pool.
\<close>

definition check_tx_inputs ::
  "pool_env \<Rightarrow> pool_tx \<Rightarrow> hash \<Rightarrow> tx_verification_context \<Rightarrow> bool \<Rightarrow> tx_memory_pool \<Rightarrow>
   (bool \<times> tx_verification_context \<times> u64 \<times> hash) \<times> tx_memory_pool" where
  "check_tx_inputs env tx txid tvc kept_by_block pool =
     (case (if kept_by_block then None else map_of (m_input_cache pool) txid) of
        Some cached \<Rightarrow> (cached, pool)
      | None \<Rightarrow>
          (let r = pe_check_tx_inputs env tx tvc kept_by_block
           in (r, if kept_by_block then pool
                  else pool\<lparr>m_input_cache := insert_entry txid r (m_input_cache pool)\<rparr>)))"

text \<open>
  The end of \<open>add_tx\<close> after the transaction is stored: the weight sum and the cookie are
  bumped and the pool is pruned to its limit.
\<close>

definition finish_add_tx ::
  "pool_env \<Rightarrow> u64 \<Rightarrow> tx_verification_context \<Rightarrow> tx_memory_pool \<Rightarrow>
   bool \<times> tx_verification_context \<times> tx_memory_pool" where
  "finish_add_tx env tx_weight tvc pool =
     (True, tvc\<lparr>m_verification_failed := False\<rparr>,
      prune env (m_txpool_max_weight pool)
        (pool\<lparr>m_txpool_weight := m_txpool_weight pool + tx_weight,
               m_cookie := m_cookie pool + 1\<rparr>))"

text \<open>
  The branch of \<open>add_tx\<close> taken when \<open>check_tx_inputs\<close> fails: a transaction kept by a
  block is stored all the same.
\<close>

definition add_tx_failed_inputs ::
  "pool_env \<Rightarrow> pool_tx \<Rightarrow> hash \<Rightarrow> blobdata \<Rightarrow> u64 \<Rightarrow> u64 \<Rightarrow> tx_verification_context \<Rightarrow>
   relay_method \<Rightarrow> bool \<Rightarrow> tx_memory_pool \<Rightarrow> bool \<times> tx_verification_context \<times> tx_memory_pool"
  where
  "add_tx_failed_inputs env tx txid blob tx_weight fee tvc tx_relay relayed pool =
     (if tx_relay = Relay_block then
        (let meta = (set_relay_method
                      (empty_meta\<lparr>meta_weight := tx_weight, meta_fee := fee,
                         meta_max_used_block_id := null_hash, meta_max_used_block_height := 0,
                         meta_last_failed_height := 0, meta_last_failed_id := null_hash,
                         meta_receive_time := pe_now env, meta_last_relayed_time := pe_now env,
                         meta_relayed := relayed\<rparr>) tx_relay)
                      \<lparr>meta_double_spend_seen :=
                         (have_tx_keyimges_as_spent env tx txid pool
                          \<or> have_deregister_tx_already env tx pool),
                       meta_pruned := ptx_pruned tx,
                       meta_is_deregister := ptx_is_deregister tx\<rparr>;
             pool1 = pool\<lparr>m_parsed_tx_cache := insert_entry txid tx (m_parsed_tx_cache pool)\<rparr>;
             ins = insert_key_images env tx txid tx_relay pool1;
             pool2 = snd ins
         in if \<not> fst ins then (False, tvc, pool2)
            else if \<not> pe_db_write_ok env then (False, tvc, pool2)
            else finish_add_tx env tx_weight
                   (tvc\<lparr>m_verification_impossible := True, m_added_to_pool := True\<rparr>)
                   ((add_txpool_tx txid blob meta pool2)
                      \<lparr>m_txs_by_fee_and_receive_time :=
                         emplace env ((ptx_is_deregister tx, (fee, tx_weight), pe_now env), txid)
                           (m_txs_by_fee_and_receive_time pool2)\<rparr>))
      else (False, tvc\<lparr>m_verification_failed := True, m_invalid_input := True\<rparr>, pool))"

text \<open>
  The branch of \<open>add_tx\<close> taken when \<open>check_tx_inputs\<close> succeeds.  The weight sum and the
  cookie are bumped also when the transaction was stored before and its relay method is
  not upgraded, so that nothing is written.
\<close>

definition add_tx_checked_inputs ::
  "pool_env \<Rightarrow> pool_tx \<Rightarrow> hash \<Rightarrow> blobdata \<Rightarrow> u64 \<Rightarrow> u64 \<Rightarrow> u64 \<Rightarrow> hash \<Rightarrow>
   tx_verification_context \<Rightarrow> relay_method \<Rightarrow> bool \<Rightarrow> tx_memory_pool \<Rightarrow>
   bool \<times> tx_verification_context \<times> tx_memory_pool" where
  "add_tx_checked_inputs env tx txid blob tx_weight fee max_used_block_height max_used_block_id
     tvc tx_relay0 relayed pool =
     (let pool1 = (if tx_relay0 = Relay_block
                   then pool\<lparr>m_parsed_tx_cache := insert_entry txid tx (m_parsed_tx_cache pool)\<rparr>
                   else pool);
          existing = get_txpool_tx_meta txid pool1;
          tx_relay = (case existing of
                        Some m \<Rightarrow> if tx_relay0 = Relay_stem \<and> dandelionpp_stem m
                                  then Relay_fluff else tx_relay0
                      | None \<Rightarrow> tx_relay0);
          meta0 = (case existing of Some m \<Rightarrow> m
                   | None \<Rightarrow> set_relay_method empty_meta Relay_none);
          up = upgrade_relay_method meta0 tx_relay
      in if fst up \<or> existing = None then
           (let meta = (snd up)\<lparr>meta_last_relayed_time := pe_time_max env,
                         meta_receive_time := pe_now env, meta_weight := tx_weight,
                         meta_fee := fee, meta_max_used_block_id := max_used_block_id,
                         meta_max_used_block_height := max_used_block_height,
                         meta_last_failed_height := 0, meta_last_failed_id := null_hash,
                         meta_relayed := relayed,
                         meta_double_spend_seen := False, meta_pruned := ptx_pruned tx,
                         meta_is_deregister := ptx_is_deregister tx\<rparr>;
                ins = insert_key_images env tx txid tx_relay pool1;
                pool2 = snd ins
            in if \<not> fst ins then (False, tvc, pool2)
               else if \<not> pe_db_write_ok env then (False, tvc, pool2)
               else finish_add_tx env tx_weight
                      ((tvc\<lparr>m_added_to_pool := True\<rparr>)
                         \<lparr>m_relay := (if meta_fee meta > 0 \<or> ptx_is_deregister tx
                                      then tx_relay else m_relay tvc)\<rparr>)
                      ((add_txpool_tx txid blob meta (remove_txpool_tx txid pool2))
                         \<lparr>m_txs_by_fee_and_receive_time :=
                            emplace env
                              ((ptx_is_deregister tx, (fee, tx_weight), pe_now env), txid)
                              (m_txs_by_fee_and_receive_time pool2)\<rparr>))
         else finish_add_tx env tx_weight
                ((tvc\<lparr>m_added_to_pool := True\<rparr>)
                   \<lparr>m_relay := (if meta_fee (snd up) > 0 \<or> ptx_is_deregister tx
                                then tx_relay else m_relay tvc)\<rparr>)
                pool1)"

text \<open>
  \<open>add_tx\<close>.  The result holds the returned flag, the verification context and the pool.
  When \<open>get_tx_miner_fee\<close> fails the flags are set and the function goes on.
\<close>

definition add_tx ::
  "pool_env \<Rightarrow> pool_tx \<Rightarrow> hash \<Rightarrow> blobdata \<Rightarrow> u64 \<Rightarrow> tx_verification_context \<Rightarrow> relay_method \<Rightarrow>
   bool \<Rightarrow> hf_version \<Rightarrow> tx_memory_pool \<Rightarrow> bool \<times> tx_verification_context \<times> tx_memory_pool"
  where
  "add_tx env tx txid blob tx_weight tvc tx_relay relayed v pool =
     (let kept_by_block = (tx_relay = Relay_block)
      in if ptx_version tx = 0 then (False, tvc\<lparr>m_verification_failed := True\<rparr>, pool)
         else if \<not> kept_by_block \<and> txid \<in> m_timed_out_transactions pool
         then (False, tvc\<lparr>m_verification_failed := True\<rparr>, pool)
         else if \<not> pe_inputs_types_supported env tx
         then (False, tvc\<lparr>m_verification_failed := True, m_invalid_input := True\<rparr>, pool)
         else
           let miner_fee = pe_get_tx_miner_fee env tx (v \<ge> HF_VERSION_FEE_BURNING env);
               fee = snd miner_fee;
               tvc1 = (if \<not> fst miner_fee
                       then tvc\<lparr>m_verification_failed := True, m_fee_too_low := True\<rparr>
                       else tvc)
           in if \<not> kept_by_block \<and> ptx_is_transfer tx \<and> \<not> pe_check_fee env tx_weight fee
              then (False, tvc1\<lparr>m_verification_failed := True, m_fee_too_low := True\<rparr>, pool)
              else if (\<not> kept_by_block \<or> v \<ge> HF_VERSION_PER_BYTE_FEE env)
                      \<and> tx_weight > get_transaction_weight_limit env v
              then (False, tvc1\<lparr>m_verification_failed := True, m_too_big := True\<rparr>, pool)
              else if \<not> kept_by_block \<and> have_tx_keyimges_as_spent env tx txid pool
              then (False, tvc1\<lparr>m_verification_failed := True, m_double_spend := True\<rparr>,
                    mark_double_spend env tx pool)
              else if \<not> kept_by_block \<and> have_deregister_tx_already env tx pool
              then (False, tvc1\<lparr>m_verification_failed := True, m_double_spend := True\<rparr>,
                    mark_double_spend env tx pool)
              else
                let outputs = pe_check_tx_outputs env tx tvc1
                in if \<not> fst outputs
                   then (False,
                         (snd outputs)\<lparr>m_verification_failed := True, m_invalid_output := True\<rparr>,
                         pool)
                   else
                     let tvc2 = (snd outputs)\<lparr>m_verification_failed := True\<rparr>;
                         inputs = check_tx_inputs env tx txid tvc2 kept_by_block pool;
                         ch_inp_res = fst (fst inputs);
                         tvc3 = fst (snd (fst inputs));
                         max_used_block_height = fst (snd (snd (fst inputs)));
                         max_used_block_id = snd (snd (snd (fst inputs)));
                         pool1 = snd inputs
                     in if \<not> ch_inp_res
                        then add_tx_failed_inputs env tx txid blob tx_weight fee tvc3 tx_relay
                               relayed pool1
                        else add_tx_checked_inputs env tx txid blob tx_weight fee
                               max_used_block_height max_used_block_id tvc3 tx_relay relayed
                               pool1)"

text \<open>The test on which the loop of \<open>prune\<close> breaks before it looks at the weight.\<close>

definition prune_stops_at :: "pool_env \<Rightarrow> tx_key \<times> hash \<Rightarrow> bool" where
  "prune_stops_at env e \<longleftrightarrow>
     \<not> fst (fst e) \<or> snd (snd (fst e)) \<ge> pe_now env - MEMPOOL_PRUNE_DEREGISTER_LIFETIME env"

section \<open>Registry invariant\<close>




text \<open>
  The membership test of \<open>is_service_node\<close> and \<open>get_service_nodes_pubkeys\<close>, as a predicate
  on one registry entry.
\<close>

definition eligible :: "hf_version \<Rightarrow> service_node_info \<Rightarrow> bool" where
  "eligible hf info \<longleftrightarrow> (is_valid info \<and> hf > 9) \<or> is_fully_funded info"

text \<open>
  A set of constants on which the model is evaluated at concrete inputs: the activation
  fork is 5, as in the \<open>hard_fork_version < 5\<close> guards of the registry, and the portion
  denominator is the largest multiple of four below \<open>2 ^ 64\<close>.
\<close>

definition sample_config :: config where
  "sample_config = \<lparr>SERVICE_NODE_VERSION = 5, STAKING_PORTIONS = 0xfffffffffffffffc,
     COIN = 10000, MAX_NUMBER_OF_CONTRIBUTORS = 4, MAX_NUMBER_OF_CONTRIBUTORS_V2 = 10,
     MAX_NUMBER_OF_CONTRIBUTORS_V3 = 100, MIN_OPERATOR_V12 = 1000, MAX_OPERATOR_V12 = 5000,
     MIN_POOL_STAKERS_V12 = 100, MAX_POOL_STAKERS_V12 = 5000, lock_blocks = 20,
     STAKING_REQUIREMENT_LOCK_BLOCKS_EXCESS = 5, CRYPTONOTE_MAX_BLOCK_NUMBER = 500000000,
     CRYPTONOTE_MINED_MONEY_UNLOCK_WINDOW = 60, UNASSIGNED_SWARM_ID = - 1, QUORUM_SIZE = 3,
     MIN_NODES_TO_TEST = 2, NTH_OF_THE_NETWORK_TO_TEST = 100,
     DEREGISTER_LIFETIME_BY_HEIGHT = 5, DEREGISTER_LIFETIME_BY_HEIGHT_V2 = 10\<rparr>"


definition sample_info :: "u64 \<Rightarrow> u64 \<Rightarrow> u32 \<Rightarrow> u64 \<Rightarrow> u64 \<Rightarrow> u64 \<Rightarrow> service_node_info" where
  "sample_info reg_height reward_height reward_index contributed reserved_total requirement =
     empty_info\<lparr>version := version_1_swarms, registration_height := reg_height,
       last_reward_block_height := reward_height, last_reward_transaction_index := reward_index,
       total_contributed := contributed, total_reserved := reserved_total,
       staking_requirement := requirement, portions_for_operator := 0xfffffffffffffffc\<rparr>"

text \<open>
  A chain on which every height has the same hard-fork version, the staking requirement is
  100000 coins, every block id is non-null, and the swarm rebalancer changes nothing.
\<close>

definition sample_chain :: "hf_version \<Rightarrow> chain" where
  "sample_chain hf = \<lparr>hard_fork_version_at = (\<lambda>h. hf), staking_requirement_at = (\<lambda>h. 1000000000),
     min_node_contribution = (\<lambda>v req res. min (req - res) (req div 4)),
     uninit_min_portions = (\<lambda>i. 0), block_id_null = (\<lambda>h. False),
     shuffle_draw = (\<lambda>h i. 0), calc_swarm_changes = (\<lambda>h m. m),
     stored_block = (\<lambda>h. None)\<rparr>"

definition sample_state :: "registry \<Rightarrow> u64 \<Rightarrow> service_node_list" where
  "sample_state reg h = \<lparr>m_service_nodes_infos = reg, m_rollback_events = [], m_height = h,
     m_quorum_states = (\<lambda>h. None)\<rparr>"

text \<open>
  Registries for evaluation.  In \<open>sample_registry\<close> entries 11 and 12 are funded and valid
  and entry 13 is neither; \<open>overreserved_entry\<close> is fully funded although its contribution is
  below its reserved total; \<open>underfunded_entry\<close> is neither valid nor fully funded.
\<close>

definition sample_registry :: registry where
  "sample_registry = [(11, sample_info 10 40 0 100 100 100), (12, sample_info 12 30 2 100 100 100),
     (13, sample_info 15 30 1 50 100 100)]"

definition overreserved_entry :: "public_key \<times> service_node_info" where
  "overreserved_entry = (21, sample_info 10 5 0 10 20 10)"

definition underfunded_entry :: "public_key \<times> service_node_info" where
  "underfunded_entry = (31, sample_info 10 1 0 5 20 10)"


text \<open>
  A registration of service node 11 by one operator holding all portions, whose transaction
  burns nothing (its total fee equals its miner fee), and the block at height 32 that
  carries it.  \<open>grace_state\<close> holds node 11 as registered at height 10 and last rewarded
  at height 12, transaction 3; with 20 lock blocks, height 32 lies in its grace period.
\<close>

definition sample_operator :: account_public_address where
  "sample_operator = \<lparr>m_spend_public_key = 41, m_view_public_key = 42\<rparr>"

definition reregistration_tx :: transaction where
  "reregistration_tx = \<lparr>tx_type = Standard,
     tx_register = Some \<lparr>reg_addresses = [sample_operator],
                          reg_portions_for_operator = 0xfffffffffffffffc,
                          reg_portions = [0xfffffffffffffffc],
                          reg_expiration_timestamp = 1000, reg_signature_ok = True\<rparr>,
     tx_service_node_pubkey = Some 11, tx_contributor = Some sample_operator,
     tx_staking_outputs = [(60, 20000000)], tx_burned_amount = 0, tx_txnFee = 5,
     tx_miner_fee = 5, tx_deregister = None\<rparr>"

definition block_32 :: block where
  "block_32 = \<lparr>blk_height = 32, blk_timestamp = 500, blk_winner = null_pkey\<rparr>"

definition grace_state :: service_node_list where
  "grace_state = sample_state [(11, sample_info 10 12 3 1000000000 1000000000 1000000000)] 32"

text \<open>
  A pool environment for evaluation, at time 1000 with a deregister lifetime of 100: all
  checks pass, \<open>get_tx_miner_fee\<close> and \<open>check_fee\<close> answer as given, and the container is
  ordered with deregisters first, then by falling fee per byte, then by rising receive time.
  Transactions relayed by \<open>fluff\<close> or \<open>block\<close> are broadcast.  The blob of a stored
  transaction is its id: an id below 10 parses to a deregister without inputs, any other
  id to a transfer that spends the key image of the same number.
\<close>

definition sample_tx_order :: "tx_key \<times> hash \<Rightarrow> tx_key \<times> hash \<Rightarrow> bool" where
  "sample_tx_order x y \<longleftrightarrow>
     (let a = fst x; b = fst y
      in (fst a \<and> \<not> fst b)
         \<or> (fst a = fst b
              \<and> (unat (fst (fst (snd a))) * unat (snd (fst (snd b)))
                    > unat (fst (fst (snd b))) * unat (snd (fst (snd a)))
                  \<or> (unat (fst (fst (snd a))) * unat (snd (fst (snd b)))
                        = unat (fst (fst (snd b))) * unat (snd (fst (snd a)))
                      \<and> snd (snd a) < snd (snd b)))))"

definition sample_matches_category :: "txpool_tx_meta \<Rightarrow> relay_category \<Rightarrow> bool" where
  "sample_matches_category m c =
     (case c of
        Category_all \<Rightarrow> True
      | Category_relayable \<Rightarrow> meta_relay_method m \<noteq> Relay_none
      | Category_broadcasted \<Rightarrow> meta_relay_method m \<in> {Relay_fluff, Relay_block}
      | Category_legacy \<Rightarrow> meta_relay_method m \<in> {Relay_fluff, Relay_block, Relay_none})"

definition sample_parse :: "blobdata \<Rightarrow> pool_tx option" where
  "sample_parse b =
     (if b < 10
      then Some \<lparr>ptx_version = 3, ptx_type = Deregister, ptx_is_transfer = False,
                 ptx_is_deregister = True, ptx_pruned = False, ptx_vin = [],
                 ptx_deregister = Some (word_of_nat b, 0)\<rparr>
      else Some \<lparr>ptx_version = 2, ptx_type = Standard, ptx_is_transfer = True,
                 ptx_is_deregister = False, ptx_pruned = False, ptx_vin = [Txin_to_key b],
                 ptx_deregister = None\<rparr>)"

definition sample_pool_env :: "bool \<times> u64 \<Rightarrow> bool \<Rightarrow> pool_env" where
  "sample_pool_env miner_fee_result fee_ok = \<lparr>pe_now = 1000, pe_time_max = 2 ^ 64 - 1,
     pe_inputs_types_supported = (\<lambda>tx. True),
     pe_get_tx_miner_fee = (\<lambda>tx burning. miner_fee_result), pe_check_fee = (\<lambda>w f. fee_ok),
     pe_min_block_weight = (\<lambda>v. 300000),
     pe_check_tx_outputs = (\<lambda>tx tvc. (True, tvc)),
     pe_check_tx_inputs = (\<lambda>tx tvc kept. (True, tvc, 0, 0)),
     pe_matches_category = sample_matches_category, pe_include_sensitive = False,
     pe_parse_tx = sample_parse, pe_parse_tx_base = sample_parse,
     pe_parse_tx_prefix = sample_parse, pe_tx_order = sample_tx_order,
     pe_db_write_ok = True, pe_abort_undoes = True,
     MEMPOOL_PRUNE_DEREGISTER_LIFETIME = 100, CRYPTONOTE_COINBASE_BLOB_RESERVED_SIZE = 600,
     HF_VERSION_FEE_BURNING = 12, HF_VERSION_PER_BYTE_FEE = 8\<rparr>"

definition sample_meta :: "bool \<Rightarrow> time_t \<Rightarrow> txpool_tx_meta" where
  "sample_meta dereg received = empty_meta\<lparr>meta_weight := 10, meta_fee := 20,
     meta_receive_time := received, meta_last_relayed_time := received,
     meta_is_deregister := dereg, meta_relay_method := Relay_fluff\<rparr>"

definition sample_entry :: "hash \<Rightarrow> bool \<Rightarrow> time_t \<Rightarrow> tx_key \<times> hash" where
  "sample_entry h dereg received = ((dereg, (20, 10), received), h)"

text \<open>
  Pools of three transactions of weight 10 each, over a limit of 5, none of them kept by a
  block.  In \<open>standard_pool\<close> a deregister received at time 0 is followed by two transfers;
  in \<open>fresh_last_pool\<close> two deregisters received at time 0 and 1 are followed by one received
  at time 950, inside the lifetime window; in \<open>stale_pool\<close> all three are deregisters
  received before the window.
\<close>

definition pool_of :: "(hash \<times> bool \<times> time_t) list \<Rightarrow> tx_memory_pool" where
  "pool_of txs = \<lparr>m_txs_by_fee_and_receive_time =
       map (\<lambda>t. sample_entry (fst t) (fst (snd t)) (snd (snd t))) txs,
     txpool_store = map (\<lambda>t. (fst t, sample_meta (fst (snd t)) (snd (snd t)), fst t)) txs,
     m_spent_key_images = map (\<lambda>t. (fst t, [fst t])) (filter (\<lambda>t. \<not> fst (snd t)) txs),
     m_timed_out_transactions = {}, m_parsed_tx_cache = [], m_input_cache = [],
     m_txpool_weight = 10 * word_of_nat (length txs),
     m_txpool_max_weight = 5, m_cookie = 0\<rparr>"

definition standard_pool :: tx_memory_pool where
  "standard_pool = pool_of [(1, True, 0), (12, False, 10), (13, False, 20)]"

definition fresh_last_pool :: tx_memory_pool where
  "fresh_last_pool = pool_of [(1, True, 0), (2, True, 1), (3, True, 950)]"

definition stale_pool :: tx_memory_pool where
  "stale_pool = pool_of [(1, True, 0), (2, True, 1), (3, True, 2)]"

definition empty_pool :: tx_memory_pool where
  "empty_pool = pool_of []"

definition sample_tvc :: tx_verification_context where
  "sample_tvc = \<lparr>m_verification_failed = False, m_fee_too_low = False, m_too_big = False,
     m_double_spend = False, m_invalid_input = False, m_invalid_output = False,
     m_verification_impossible = False, m_added_to_pool = False, m_relay = Relay_none\<rparr>"

definition sample_transfer :: pool_tx where
  "sample_transfer = \<lparr>ptx_version = 2, ptx_type = Standard, ptx_is_transfer = True,
     ptx_is_deregister = False, ptx_pruned = False, ptx_vin = [Txin_to_key 17],
     ptx_deregister = None\<rparr>"

text \<open>A deregister without inputs that names service node 0 of the quorum at a height.\<close>

definition sample_deregister :: "u64 \<Rightarrow> pool_tx" where
  "sample_deregister h = \<lparr>ptx_version = 3, ptx_type = Deregister, ptx_is_transfer = False,
     ptx_is_deregister = True, ptx_pruned = False, ptx_vin = [],
     ptx_deregister = Some (h, 0)\<rparr>"




section \<open>Reward split\<close>

text \<open>
  C1 (as amended).  Whenever the base-reward formula succeeds with a nonzero sum and
  \<open>already_generated_coins\<close> is nonzero, the computation returns reward parts in which the
  service-node share is: a quarter of the adjusted base reward, rounded down, then times
  three, for hard fork 12 and later; half of the adjusted base reward, rounded down, from
  the activation fork up to hard fork 11; and zero before the activation fork.  The operator
  reward is half the service-node share rounded down, the staker reward is the rest of the
  share, and the base miner part is the adjusted base reward minus the share.
\<close>

theorem block_reward_split:
  assumes "already_generated_coins \<noteq> 0"
    and "base0 + (if hf \<ge> 7 then g else 0) + (if hf \<ge> 17 then d else 0) \<noteq> 0"
  shows "\<exists>r. get_equilibria_block_reward cfg (Some base0) g d already_generated_coins hf w fee
               = Some r
           \<and> service_node_total r =
               (if hf \<ge> 12 then adjusted_base_reward r div 4 * 3
                else if SERVICE_NODE_VERSION cfg \<le> hf then adjusted_base_reward r div 2
                else 0)
           \<and> operator_reward r = service_node_total r div 2
           \<and> staker_reward r = service_node_total r - operator_reward r
           \<and> base_miner r = adjusted_base_reward r - service_node_total r"
  using assms
  by (simp add: get_equilibria_block_reward_def Let_def service_node_reward_formula_def)


theorem block_reward_split_witness:
  "\<exists>r. get_equilibria_block_reward sample_config (Some 1000) 0 0 1 17 [] 0 = Some r
        \<and> service_node_total r =
            (if (17::nat) \<ge> 12 then adjusted_base_reward r div 4 * 3
             else if SERVICE_NODE_VERSION sample_config \<le> 17 then adjusted_base_reward r div 2
             else 0)
        \<and> operator_reward r = service_node_total r div 2
        \<and> staker_reward r = service_node_total r - operator_reward r
        \<and> base_miner r = adjusted_base_reward r - service_node_total r"
  using block_reward_split [of 1 1000 17 0 0 sample_config "[]" 0] by simp

theorem block_reward_three_quarters_counterexample:
  "case get_equilibria_block_reward sample_config (Some 7) 0 0 1 12 [] 0 of
     None \<Rightarrow> False
   | Some r \<Rightarrow> adjusted_base_reward r = 7 \<and> service_node_total r = 3
       \<and> service_node_total r \<noteq> adjusted_base_reward r * 3 div 4"
  by (simp add: get_equilibria_block_reward_def Let_def service_node_reward_formula_def)

section \<open>Coinbase validation: the output-count guard\<close>

text \<open>
  C10.  The output-count guard of \<open>validate_miner_tx\<close> subtracts one from the number of
  outputs in unsigned 64-bit arithmetic.  For a coinbase with no outputs the difference is
  \<open>2 ^ 64 - 1\<close>, the guard is false for every list of expected payouts, and
  \<open>validate_miner_tx\<close> never answers \<open>OutputCount\<close>.
\<close>

theorem output_count_guard_empty_vout:
  "(word_of_nat (length ([] :: tx_out list)) - 1 :: u64) = word_of_nat (2 ^ 64 - 1)
   \<and> \<not> output_count_guard ([] :: tx_out list) (aps :: (account_public_address \<times> u64) list)
   \<and> validate_miner_tx cfg env hf_height hf_current reg (miner_tx\<lparr>vout := []\<rparr>) height hf rp
       \<noteq> OutputCount"
proof -
  have w: "(word_of_nat (length ([] :: tx_out list)) - 1 :: u64) = word_of_nat (2 ^ 64 - 1)"
    by simp
  have g: "\<not> output_count_guard ([] :: tx_out list) xs" for xs :: "'x list"
    by (simp add: output_count_guard_def)
  have v: "validate_outputs cfg env hf height rp t [] i ps \<noteq> OutputCount" for t i ps
    by (cases ps) (simp_all add: Let_def)
  have m: "validate_miner_tx cfg env hf_height hf_current reg (miner_tx\<lparr>vout := []\<rparr>) height
             hf rp \<noteq> OutputCount"
    by (simp add: validate_miner_tx_def Let_def g v split: option.splits)
  from w g m show ?thesis by blast
qed

section \<open>Winner selection\<close>

lemma pair_less_irrefl: "\<not> pair_less a a"
  by (simp add: pair_less_def)

lemma pair_less_trans: "pair_less a b \<Longrightarrow> pair_less b c \<Longrightarrow> pair_less a c"
  by (auto simp: pair_less_def)

lemma pair_less_asym: "pair_less a b \<Longrightarrow> \<not> pair_less b a"
  by (auto simp: pair_less_def)

lemma word_not_less_max: "\<not> x < (- 1 :: 'a::len word) \<longleftrightarrow> x = - 1"
  by (metis word_n1_ge word_order.not_eq_extremum)

lemma pair_less_sentinel: "\<not> pair_less a (- 1, - 1) \<longleftrightarrow> a = (- 1, - 1)"
  by (cases a) (auto simp: pair_less_def word_not_less_max)

text \<open>
  The loop, started with any bound, key and flag, returns either the key it was given (no
  eligible entry lies below the bound) or the key of an eligible entry below the bound that
  no eligible entry precedes.
\<close>

lemma select_winner_loop_min:
  assumes "hf = 12 \<longrightarrow> (\<forall>p\<in>set reg. is_fully_funded (snd p) \<longrightarrow> is_valid (snd p))"
    and "hf \<noteq> 12 \<longrightarrow> \<not> over"
  shows "(select_winner_loop cfg hf reg oldest key over = key
            \<and> (\<forall>p\<in>set reg. eligible hf (snd p) \<longrightarrow> \<not> pair_less (waiting_since (snd p)) oldest))
         \<or> (\<exists>info. (select_winner_loop cfg hf reg oldest key over, info) \<in> set reg
               \<and> eligible hf info \<and> pair_less (waiting_since info) oldest
               \<and> (\<forall>p\<in>set reg. eligible hf (snd p)
                      \<longrightarrow> \<not> pair_less (waiting_since (snd p)) (waiting_since info)))"
  using assms
proof (induction reg arbitrary: oldest key over)
  case Nil
  then show ?case by simp
next
  case (Cons p rest)
  define over' where "over' =
     (if hf = 12 \<and> total_contributed (snd p)
           < portions_to_amount cfg (portions_for_operator (snd p)) (staking_requirement (snd p))
      then True else over)"
  have flag: "hf \<noteq> 12 \<longrightarrow> \<not> over'"
    using Cons.prems(2) by (simp add: over'_def)
  have rest: "hf = 12 \<longrightarrow> (\<forall>q\<in>set rest. is_fully_funded (snd q) \<longrightarrow> is_valid (snd q))"
    using Cons.prems(1) by simp
  have cond: "((is_valid (snd p) \<and> hf > 9) \<or> (is_fully_funded (snd p) \<and> \<not> over'))
                \<longleftrightarrow> eligible hf (snd p)"
    using Cons.prems(1) flag by (cases "hf = 12") (auto simp: eligible_def)
  obtain k info where p: "p = (k, info)" by (cases p)
  show ?case
  proof (cases "eligible hf (snd p) \<and> pair_less (waiting_since (snd p)) oldest")
    case True
    then have eq: "select_winner_loop cfg hf (p # rest) oldest key over
                   = select_winner_loop cfg hf rest (waiting_since (snd p)) (fst p) over'"
      using cond by (simp add: Let_def over'_def)
    from Cons.IH [OF rest flag, of "waiting_since (snd p)" "fst p"]
    show ?thesis
    proof
      assume a: "select_winner_loop cfg hf rest (waiting_since (snd p)) (fst p) over' = fst p
                 \<and> (\<forall>q\<in>set rest. eligible hf (snd q)
                        \<longrightarrow> \<not> pair_less (waiting_since (snd q)) (waiting_since (snd p)))"
      have "(select_winner_loop cfg hf (p # rest) oldest key over, info) \<in> set (p # rest)"
        using a eq p by simp
      moreover have "eligible hf info \<and> pair_less (waiting_since info) oldest"
        using True p by simp
      moreover have "\<forall>q\<in>set (p # rest). eligible hf (snd q)
                        \<longrightarrow> \<not> pair_less (waiting_since (snd q)) (waiting_since info)"
        using a p by (simp add: pair_less_irrefl)
      ultimately show ?thesis by blast
    next
      assume "\<exists>i. (select_winner_loop cfg hf rest (waiting_since (snd p)) (fst p) over', i)
                     \<in> set rest
                 \<and> eligible hf i \<and> pair_less (waiting_since i) (waiting_since (snd p))
                 \<and> (\<forall>q\<in>set rest. eligible hf (snd q)
                        \<longrightarrow> \<not> pair_less (waiting_since (snd q)) (waiting_since i))"
      then obtain i where i:
        "(select_winner_loop cfg hf rest (waiting_since (snd p)) (fst p) over', i) \<in> set rest"
        "eligible hf i" "pair_less (waiting_since i) (waiting_since (snd p))"
        "\<forall>q\<in>set rest. eligible hf (snd q)
            \<longrightarrow> \<not> pair_less (waiting_since (snd q)) (waiting_since i)"
        by blast
      have "(select_winner_loop cfg hf (p # rest) oldest key over, i) \<in> set (p # rest)"
        using i(1) eq by simp
      moreover have "pair_less (waiting_since i) oldest"
        using i(3) True pair_less_trans by blast
      moreover have "\<forall>q\<in>set (p # rest). eligible hf (snd q)
                        \<longrightarrow> \<not> pair_less (waiting_since (snd q)) (waiting_since i)"
        using i(3,4) pair_less_asym by auto
      ultimately show ?thesis using i(2) by blast
    qed
  next
    case False
    then have eq: "select_winner_loop cfg hf (p # rest) oldest key over
                   = select_winner_loop cfg hf rest oldest key over'"
      using cond by (auto simp: Let_def over'_def)
    from Cons.IH [OF rest flag, of oldest key]
    show ?thesis
    proof
      assume a: "select_winner_loop cfg hf rest oldest key over' = key
                 \<and> (\<forall>q\<in>set rest. eligible hf (snd q)
                        \<longrightarrow> \<not> pair_less (waiting_since (snd q)) oldest)"
      then show ?thesis using eq False by auto
    next
      assume "\<exists>i. (select_winner_loop cfg hf rest oldest key over', i) \<in> set rest
                 \<and> eligible hf i \<and> pair_less (waiting_since i) oldest
                 \<and> (\<forall>q\<in>set rest. eligible hf (snd q)
                        \<longrightarrow> \<not> pair_less (waiting_since (snd q)) (waiting_since i))"
      then obtain i where i:
        "(select_winner_loop cfg hf rest oldest key over', i) \<in> set rest"
        "eligible hf i" "pair_less (waiting_since i) oldest"
        "\<forall>q\<in>set rest. eligible hf (snd q)
            \<longrightarrow> \<not> pair_less (waiting_since (snd q)) (waiting_since i)"
        by blast
      have "(select_winner_loop cfg hf (p # rest) oldest key over, i) \<in> set (p # rest)"
        using i(1) eq by simp
      moreover have "eligible hf (snd p) \<longrightarrow> \<not> pair_less (waiting_since (snd p)) (waiting_since i)"
        using False i(3) pair_less_trans by blast
      ultimately show ?thesis using i(2,3,4) by auto
    qed
  qed
qed

text \<open>
  C2 (as amended).  Call an entry eligible when it is fully funded or, from hard fork 10
  on, valid.  For every registry in which, at hard fork 12, every fully funded entry is also
  valid, \<open>select_winner\<close> returns the key of an eligible entry whose pair
  (\<open>last_reward_block_height\<close>, \<open>last_reward_transaction_index\<close>) is lexicographically
  minimal among the eligible entries and lies below the pair of the two maximal values; when
  no eligible entry lies below that pair the null key is returned.  Eligibility of an entry
  then depends on that entry's fields only.
\<close>

theorem select_winner_minimal:
  assumes "hf = 12 \<longrightarrow> (\<forall>p\<in>set reg. is_fully_funded (snd p) \<longrightarrow> is_valid (snd p))"
  shows "(select_winner cfg hf reg = null_pkey
            \<and> (\<forall>p\<in>set reg. eligible hf (snd p) \<longrightarrow> waiting_since (snd p) = (- 1, - 1)))
         \<or> (\<exists>info. (select_winner cfg hf reg, info) \<in> set reg
               \<and> eligible hf info \<and> waiting_since info \<noteq> (- 1, - 1)
               \<and> (\<forall>p\<in>set reg. eligible hf (snd p)
                      \<longrightarrow> \<not> pair_less (waiting_since (snd p)) (waiting_since info)))"
  using select_winner_loop_min [OF assms, of False cfg "(- 1, - 1)" null_pkey]
  unfolding select_winner_def pair_less_sentinel [symmetric]
  by auto

lemmas winner_eval =
  select_winner_def Let_def is_valid_def is_fully_funded_def sample_info_def empty_info_def
  portions_to_amount_def mul_div_lo_def sample_config_def pair_less_def waiting_since_def
  null_pkey_def version_1_swarms_def version_0_def eligible_def

theorem select_winner_minimal_witness:
  "select_winner sample_config 12 sample_registry = 12
   \<and> (\<exists>info. (select_winner sample_config 12 sample_registry, info) \<in> set sample_registry
          \<and> eligible 12 info \<and> waiting_since info \<noteq> (- 1, - 1)
          \<and> \<not> pair_less (waiting_since (snd (sample_registry ! 0))) (waiting_since info)
          \<and> \<not> pair_less (waiting_since (snd (sample_registry ! 1))) (waiting_since info))"
proof -
  have h: "\<forall>p\<in>set sample_registry. is_fully_funded (snd p) \<longrightarrow> is_valid (snd p)"
    by (simp add: sample_registry_def winner_eval)
  have w: "select_winner sample_config 12 sample_registry = 12"
    by (simp add: sample_registry_def winner_eval)
  have n: "select_winner sample_config 12 sample_registry \<noteq> null_pkey"
    by (simp add: w null_pkey_def)
  have e: "eligible 12 (snd (sample_registry ! 0))" "eligible 12 (snd (sample_registry ! 1))"
    "sample_registry ! 0 \<in> set sample_registry" "sample_registry ! 1 \<in> set sample_registry"
    by (simp_all add: sample_registry_def winner_eval)
  from select_winner_minimal [of 12 sample_registry sample_config] h n w e
  show ?thesis by blast
qed

theorem select_winner_eligibility_counterexample:
  "select_winner sample_config 10 [overreserved_entry] = fst overreserved_entry
   \<and> \<not> is_valid (snd overreserved_entry)
   \<and> select_winner sample_config 12 [overreserved_entry] = fst overreserved_entry
   \<and> select_winner sample_config 12 [underfunded_entry, overreserved_entry] = null_pkey"
  by (simp add: overreserved_entry_def underfunded_entry_def winner_eval)

section \<open>Coinbase for the null winner\<close>












section \<open>Quorum sizes\<close>

lemma length_shuffle_steps: "length (shuffle_steps draw i n a) = length a"
  by (induction n arbitrary: i a) (simp_all add: Let_def)

lemma length_xeq_shuffle: "length (xeq_shuffle draw a) = length a"
  by (simp add: xeq_shuffle_def length_shuffle_steps)

text \<open>
  C9.  For every height whose block hash is not the null hash, the quorum state stored for
  that height has a quorum of \<open>min (|pubkeys|, QUORUM_SIZE)\<close> keys and a list of nodes to
  test of \<open>max (min (MIN_NODES_TO_TEST, remaining), remaining / NTH_OF_THE_NETWORK_TO_TEST)\<close>
  keys, where \<open>pubkeys\<close> is the sorted list of eligible keys and \<open>remaining\<close> the number of
  them not placed in the quorum.
\<close>

theorem quorum_state_sizes:
  assumes "\<not> block_id_null ch height" and "0 < NTH_OF_THE_NETWORK_TO_TEST cfg"
  shows "\<exists>q. m_quorum_states (store_quorum_state_from_rewards_list cfg ch height st) height
                = Some q
     \<and> length (quorum_nodes q)
         = min (length (get_service_nodes_pubkeys (hard_fork_version_at ch (m_height st))
                         (m_service_nodes_infos st))) (QUORUM_SIZE cfg)
     \<and> length (nodes_to_test q)
         = (let remaining =
                  length (get_service_nodes_pubkeys (hard_fork_version_at ch (m_height st))
                            (m_service_nodes_infos st)) - length (quorum_nodes q)
            in max (min (MIN_NODES_TO_TEST cfg) remaining)
                   (remaining div NTH_OF_THE_NETWORK_TO_TEST cfg))"
  using assms
  by (simp add: store_quorum_state_from_rewards_list_def build_quorum_state_def Let_def
      length_xeq_shuffle max.commute)

theorem quorum_state_sizes_witness:
  "\<exists>q. m_quorum_states (store_quorum_state_from_rewards_list sample_config (sample_chain 10) 4
                          (sample_state sample_registry 5)) 4 = Some q
     \<and> length (quorum_nodes q) = 2 \<and> length (nodes_to_test q) = 0"
proof -
  have h1: "\<not> block_id_null (sample_chain 10) 4"
    by (simp add: sample_chain_def)
  have h2: "0 < NTH_OF_THE_NETWORK_TO_TEST sample_config"
    by (simp add: sample_config_def)
  have l: "length (get_service_nodes_pubkeys
                     (hard_fork_version_at (sample_chain 10)
                        (m_height (sample_state sample_registry 5)))
                     (m_service_nodes_infos (sample_state sample_registry 5))) = 2"
    by (simp add: get_service_nodes_pubkeys_def sample_state_def sample_registry_def
        sample_chain_def winner_eval)
  from quorum_state_sizes [OF h1 h2, of "sample_state sample_registry 5"] l
  show ?thesis
    by (auto simp: sample_config_def Let_def)
qed

section \<open>Expiry\<close>

lemma erase_absent:
  assumes "map_of reg k = None"
  shows "erase k reg = reg"
proof -
  have "k \<notin> fst ` set reg"
    using assms by (simp add: map_of_eq_None_iff)
  then show ?thesis
    unfolding erase_def by (intro filter_True) auto
qed

lemma foldl_expire_infos:
  "m_service_nodes_infos (fst (foldl (expire_node h) sc ks))
     = filter (\<lambda>p. fst p \<notin> set ks) (m_service_nodes_infos (fst sc))"
proof (induction ks arbitrary: sc)
  case Nil
  then show ?case by simp
next
  case (Cons k ks)
  have "m_service_nodes_infos (fst (expire_node h sc k))
        = erase k (m_service_nodes_infos (fst sc))"
    by (cases "map_of (m_service_nodes_infos (fst sc)) k")
       (simp_all add: expire_node_def erase_absent)
  then show ?case
    using Cons.IH [of "expire_node h sc k"]
    by (simp add: erase_def conj_commute)
qed

lemma map_of_filter_keys:
  "map_of (filter (\<lambda>p. fst p \<notin> K) reg) k = (if k \<in> K then None else map_of reg k)"
  by (induction reg) auto

text \<open>
  C4 (as amended).  From hard fork 5 on, the expiry step of the block at height \<open>H\<close>
  removes a node registered at height \<open>R\<close> exactly when \<open>H > R + lock_blocks + excess\<close>: the
  entry is still present after the expiry step of every block up to and including
  \<open>R + lock_blocks + excess\<close>, and the expiry step of block \<open>R + lock_blocks + excess + 1\<close>
  removes it.
\<close>

theorem expiry_height:
  assumes hf: "hard_fork_version_at ch H \<ge> 5"
    and dist: "distinct (map fst (m_service_nodes_infos st))"
    and ent: "map_of (m_service_nodes_infos st) k = Some info"
    and nowrap: "unat (registration_height info) + unat (lock_blocks cfg)
                   + unat (STAKING_REQUIREMENT_LOCK_BLOCKS_EXCESS cfg) < 2 ^ 64"
  shows "map_of (m_service_nodes_infos (fst (expire_nodes cfg ch H st))) k
         = (if unat H > unat (registration_height info) + unat (lock_blocks cfg)
                   + unat (STAKING_REQUIREMENT_LOCK_BLOCKS_EXCESS cfg)
            then None else Some info)"
proof -
  define lock where "lock = lock_blocks cfg + STAKING_REQUIREMENT_LOCK_BLOCKS_EXCESS cfg"
  have ul: "unat lock
            = unat (lock_blocks cfg) + unat (STAKING_REQUIREMENT_LOCK_BLOCKS_EXCESS cfg)"
    unfolding lock_def using nowrap by (simp add: unat_add_lem [THEN iffD1])
  have ur: "unat (registration_height info + lock) = unat (registration_height info) + unat lock"
    using nowrap ul by (simp add: unat_add_lem [THEN iffD1])
  have mem: "(k, info) \<in> set (m_service_nodes_infos st)"
    using ent by (rule map_of_SomeD)
  have uniq: "\<And>i. (k, i) \<in> set (m_service_nodes_infos st) \<Longrightarrow> i = info"
    using dist ent by simp
  have exp: "k \<in> set (get_expired_nodes cfg ch st H)
             \<longleftrightarrow> unat H > unat (registration_height info) + unat lock"
  proof (cases "H < lock")
    case True
    then have "unat H < unat lock"
      by (simp add: word_less_nat_alt)
    then show ?thesis
      using True hf by (simp add: get_expired_nodes_def Let_def lock_def)
  next
    case False
    have "k \<in> set (get_expired_nodes cfg ch st H)
          \<longleftrightarrow> (\<exists>i. (k, i) \<in> set (m_service_nodes_infos st) \<and> H > registration_height i + lock)"
      using False hf by (force simp: get_expired_nodes_def Let_def lock_def)
    also have "\<dots> \<longleftrightarrow> H > registration_height info + lock"
      using mem uniq by blast
    also have "\<dots> \<longleftrightarrow> unat H > unat (registration_height info) + unat lock"
      by (simp add: word_less_nat_alt ur)
    finally show ?thesis .
  qed
  show ?thesis
    unfolding expire_nodes_def foldl_expire_infos
    using exp ent ul by (simp add: map_of_filter_keys)
qed

lemmas registry_eval =
  process_block_def Let_def expire_nodes_def get_expired_nodes_def expire_node_def
  bump_winner_def process_tx_def process_registration_tx_def is_registration_tx_def
  process_contribution_tx_def process_deregistration_tx_def get_contribution_def
  contribution_tx_output_has_correct_unlock_time_def check_service_node_portions_def
  update_swarms_def gather_swarms_def cache_quorum_def
  store_quorum_state_from_rewards_list_def blockchain_detached_def erase_def
  sample_chain_def sample_state_def sample_config_def sample_info_def empty_info_def
  mk_contribution_def mul_div_lo_def is_fully_funded_def is_valid_def null_pkey_def
  version_0_def version_1_swarms_def waiting_since_def

theorem expiry_height_witness:
  "map_of (m_service_nodes_infos (fst (expire_nodes sample_config (sample_chain 10) 36
             (sample_state [(11, sample_info 10 12 3 100 100 100)] 36)))) 11 = None
   \<and> map_of (m_service_nodes_infos (fst (expire_nodes sample_config (sample_chain 10) 35
             (sample_state [(11, sample_info 10 12 3 100 100 100)] 35)))) 11
       = Some (sample_info 10 12 3 100 100 100)"
proof -
  have h: "hard_fork_version_at (sample_chain 10) H \<ge> 5" for H
    by (simp add: sample_chain_def)
  have d: "distinct (map fst (m_service_nodes_infos
             (sample_state [(11, sample_info 10 12 3 100 100 100)] m)))" for m
    by (simp add: sample_state_def)
  have e: "map_of (m_service_nodes_infos
             (sample_state [(11, sample_info 10 12 3 100 100 100)] m)) 11
           = Some (sample_info 10 12 3 100 100 100)" for m
    by (simp add: sample_state_def)
  have n: "unat (registration_height (sample_info 10 12 3 100 100 100))
             + unat (lock_blocks sample_config)
             + unat (STAKING_REQUIREMENT_LOCK_BLOCKS_EXCESS sample_config) = 35"
    by (simp add: sample_info_def sample_config_def)
  have n': "unat (registration_height (sample_info 10 12 3 100 100 100))
             + unat (lock_blocks sample_config)
             + unat (STAKING_REQUIREMENT_LOCK_BLOCKS_EXCESS sample_config) < 2 ^ 64"
    by (simp add: n)
  from expiry_height [OF h d e n', of 36 36] expiry_height [OF h d e n', of 35 35] n
  show ?thesis by simp
qed

theorem expiry_height_counterexample:
  "(case process_block sample_config (sample_chain 10)
           \<lparr>blk_height = 35, blk_timestamp = 500, blk_winner = null_pkey\<rparr> []
           (sample_state [(11, sample_info 10 12 3 100 100 100)] 35) of
      Done s \<Rightarrow> map_of (m_service_nodes_infos s) 11 = Some (sample_info 10 12 3 100 100 100)
    | Aborted s \<Rightarrow> False)
   \<and> unat (registration_height (sample_info 10 12 3 100 100 100))
       + unat (lock_blocks sample_config)
       + unat (STAKING_REQUIREMENT_LOCK_BLOCKS_EXCESS sample_config) = 35"
  by (simp add: registry_eval)

section \<open>Detach and re-apply\<close>

text \<open>
  C5, evaluated where it fails.  Node 11 is in its grace period at height 32.  Block 32
  re-registers it and the contribution of the same transaction is rejected, so the new entry
  keeps the reward cursor (12, 3) of the old one.  The registration is journalled as a new
  entry: detaching to height 32 erases node 11 instead of restoring the entry the registry
  held at height 32, and applying block 32 again registers the node afresh with the cursor
  (32, 0).  The registry after detach and re-apply differs from the one recorded after the
  first application.
\<close>

theorem detach_reapply_reregistration:
  "(case process_block sample_config (sample_chain 17) block_32 [reregistration_tx] grace_state of
      Aborted s \<Rightarrow> False
    | Done s1 \<Rightarrow>
        map_of (m_service_nodes_infos grace_state) 11 \<noteq> None
        \<and> m_rollback_events s1 = [Prevent_rollback 2, Rollback_new 32 11]
        \<and> m_height s1 = 33
        \<and> m_service_nodes_infos (blockchain_detached grace_state 32 s1) = []
        \<and> m_height (blockchain_detached grace_state 32 s1) = 32
        \<and> (case process_block sample_config (sample_chain 17) block_32 [reregistration_tx]
                   (blockchain_detached grace_state 32 s1) of
              Aborted s \<Rightarrow> False
            | Done s2 \<Rightarrow>
                m_height s2 = 33
                \<and> map (\<lambda>p. (fst p, waiting_since (snd p))) (m_service_nodes_infos s1)
                    = [(11, (12, 3))]
                \<and> map (\<lambda>p. (fst p, waiting_since (snd p))) (m_service_nodes_infos s2)
                    = [(11, (32, 0))]
                \<and> m_service_nodes_infos s2 \<noteq> m_service_nodes_infos s1))"
  by (simp add: registry_eval grace_state_def block_32_def reregistration_tx_def
      sample_operator_def)

theorem detach_reapply_reregistration_witness:
  "\<exists>s1. process_block sample_config (sample_chain 17) block_32 [reregistration_tx] grace_state
            = Done s1
        \<and> map_of (m_service_nodes_infos grace_state) 11 \<noteq> None
        \<and> m_service_nodes_infos (blockchain_detached grace_state 32 s1) = []"
  using detach_reapply_reregistration
  by (cases "process_block sample_config (sample_chain 17) block_32 [reregistration_tx]
               grace_state") simp_all

section \<open>Pool pruning\<close>

lemma prune_scan_stop:
  "prune_stops_at env e \<Longrightarrow>
     prune_scan env bytes (e # es) pool changed = (e # es, pool, changed, True)"
  by (simp add: prune_stops_at_def Let_def)

text \<open>
  Whenever the lowest-priority entry behind the first one is a standard transaction or a
  deregister inside its window, \<open>prune\<close> returns the pool as it was, whatever its weight.
\<close>

lemma prune_protected_last:
  assumes "m_txs_by_fee_and_receive_time pool = first # rest" and "rest \<noteq> []"
    and "prune_stops_at env (last rest)"
  shows "prune env bytes pool = pool"
proof -
  from assms(2) obtain ys y where r: "rest = ys @ [y]"
    by (cases rest rule: rev_cases) auto
  with assms(3) have "prune_stops_at env y"
    by simp
  then show ?thesis
    using assms(1) r
    by (simp add: prune_def Let_def prune_scan_stop del: prune_scan.simps)
qed

lemmas pool_eval =
  prune_def Let_def pool_of_def sample_entry_def sample_meta_def empty_meta_def
  sample_pool_env_def sample_parse_def sample_matches_category_def
  remove_txpool_tx_def drop_entry_def insert_entry_def
  get_txpool_tx_meta_def get_txpool_tx_blob_def abandon_def
  remove_transaction_keyimages_def prune_stops_at_def

text \<open>
  C7, evaluated where it fails.  \<open>standard_pool\<close> holds a deregister and, behind it, two
  transfers; each weighs 10, so the weight 30 is above the target 5, and no transaction is
  kept by a block.  The claim has \<open>prune\<close> remove standard transactions until the weight is
  at most the target.  The loop breaks at the first entry it looks at, because that entry
  is a standard transaction, and the pool is returned as it was, with weight 30.  The same
  break stops the loop at a deregister inside its window (\<open>fresh_last_pool\<close>), where the
  claim has it skipped.  Deregisters older than the window are removed (\<open>stale_pool\<close>: the
  last two go, each removal and the end of the loop bump the cookie).
\<close>

theorem prune_keeps_standard_pool_over_target:
  "prune (sample_pool_env (True, 20) True) 5 standard_pool = standard_pool
   \<and> m_txpool_weight standard_pool = 30
   \<and> m_txs_by_fee_and_receive_time standard_pool
       = [((True, (20, 10), 0), 1), ((False, (20, 10), 10), 12), ((False, (20, 10), 20), 13)]
   \<and> map (\<lambda>p. meta_kept_by_block (fst (snd p))) (txpool_store standard_pool)
       = [False, False, False]
   \<and> prune (sample_pool_env (True, 20) True) 5 fresh_last_pool = fresh_last_pool
   \<and> m_txs_by_fee_and_receive_time (prune (sample_pool_env (True, 20) True) 5 stale_pool)
       = [((True, (20, 10), 0), 1)]
   \<and> map fst (txpool_store (prune (sample_pool_env (True, 20) True) 5 stale_pool)) = [1]
   \<and> m_txpool_weight (prune (sample_pool_env (True, 20) True) 5 stale_pool) = 10
   \<and> m_cookie (prune (sample_pool_env (True, 20) True) 5 stale_pool) = 3"
  by (simp add: standard_pool_def fresh_last_pool_def stale_pool_def pool_eval)

section \<open>Pool admission: the fee check\<close>

text \<open>
  C8 (as amended).  For every transaction that is submitted with a relay method other than
  \<open>block\<close>, has a nonzero version, has not timed out before, has supported input types and
  is a transfer, \<open>add_tx\<close> returns false with the flags \<open>verification_failed\<close> and
  \<open>fee_too_low\<close> set and leaves the pool as it was whenever the pair of its weight and the
  fee read by \<open>get_tx_miner_fee\<close> fails \<open>check_fee\<close>.
\<close>

theorem add_tx_fee_too_low:
  assumes "ptx_version tx \<noteq> 0" and "tx_relay \<noteq> Relay_block"
    and "txid \<notin> m_timed_out_transactions pool" and "pe_inputs_types_supported env tx"
    and "ptx_is_transfer tx"
    and "\<not> pe_check_fee env tx_weight
           (snd (pe_get_tx_miner_fee env tx (v \<ge> HF_VERSION_FEE_BURNING env)))"
  shows "add_tx env tx txid blob tx_weight tvc tx_relay relayed v pool
         = (False, tvc\<lparr>m_verification_failed := True, m_fee_too_low := True\<rparr>, pool)"
  using assms by (simp add: add_tx_def Let_def)

lemmas add_eval =
  add_tx_def add_tx_checked_inputs_def add_tx_failed_inputs_def finish_add_tx_def
  check_tx_inputs_def insert_key_images_def add_txpool_tx_def
  have_tx_keyimges_as_spent_def have_tx_keyimg_as_spent_def txpool_tx_matches_category_def
  emplace_def get_transaction_weight_limit_def have_deregister_tx_already_def
  get_transactions_def null_hash_def
  set_relay_method_def upgrade_relay_method_def relay_upgrade_allowed_def dandelionpp_stem_def
  sample_tvc_def sample_transfer_def empty_pool_def sample_tx_order_def

theorem add_tx_fee_too_low_witness:
  "add_tx (sample_pool_env (True, 0) False) sample_transfer 7 70 100 sample_tvc Relay_fluff False
     17 empty_pool
   = (False, sample_tvc\<lparr>m_verification_failed := True, m_fee_too_low := True\<rparr>, empty_pool)"
proof -
  have h: "ptx_version sample_transfer \<noteq> 0" "Relay_fluff \<noteq> Relay_block"
    "7 \<notin> m_timed_out_transactions empty_pool"
    "pe_inputs_types_supported (sample_pool_env (True, 0) False) sample_transfer"
    "ptx_is_transfer sample_transfer"
    "\<not> pe_check_fee (sample_pool_env (True, 0) False) 100
         (snd (pe_get_tx_miner_fee (sample_pool_env (True, 0) False) sample_transfer
                (17 \<ge> HF_VERSION_FEE_BURNING (sample_pool_env (True, 0) False))))"
    by (simp_all add: sample_transfer_def empty_pool_def pool_eval)
  from add_tx_fee_too_low [OF h] show ?thesis .
qed

theorem add_tx_fee_gate_counterexample:
  "add_tx (sample_pool_env (True, 0) False) sample_transfer 7 70 100 sample_tvc Relay_block False
     17 empty_pool
   = (True, sample_tvc\<lparr>m_added_to_pool := True\<rparr>,
      empty_pool\<lparr>m_txs_by_fee_and_receive_time := [((False, (0, 100), 1000), 7)],
        txpool_store :=
          [(7, empty_meta\<lparr>meta_weight := 100, meta_receive_time := 1000,
                 meta_last_relayed_time := 2 ^ 64 - 1, meta_kept_by_block := True,
                 meta_relay_method := Relay_block\<rparr>, 70)],
        m_spent_key_images := [(17, [7])],
        m_parsed_tx_cache := [(7, sample_transfer)],
        m_txpool_weight := 100, m_cookie := 2\<rparr>)
   \<and> \<not> pe_check_fee (sample_pool_env (True, 0) False) 100 0
   \<and> add_tx (sample_pool_env (True, 0) False) (sample_deregister 50) 7 70 100 sample_tvc
       Relay_fluff False 17 empty_pool
   = (True, sample_tvc\<lparr>m_added_to_pool := True, m_relay := Relay_fluff\<rparr>,
      empty_pool\<lparr>m_txs_by_fee_and_receive_time := [((True, (0, 100), 1000), 7)],
        txpool_store :=
          [(7, empty_meta\<lparr>meta_weight := 100, meta_receive_time := 1000,
                 meta_last_relayed_time := 2 ^ 64 - 1, meta_is_deregister := True,
                 meta_relay_method := Relay_fluff\<rparr>, 70)],
        m_input_cache := [(7, True, sample_tvc\<lparr>m_verification_failed := True\<rparr>, 0, 0)],
        m_txpool_weight := 100, m_cookie := 2\<rparr>)
   \<and> add_tx (sample_pool_env (True, 0) False) (sample_transfer\<lparr>ptx_version := 0\<rparr>) 7 70 100
       sample_tvc Relay_fluff False 17 empty_pool
   = (False, sample_tvc\<lparr>m_verification_failed := True\<rparr>, empty_pool)
   \<and> add_tx (sample_pool_env (False, 12345) True) sample_transfer 7 70 100 sample_tvc Relay_fluff
       False 17 empty_pool
   = (True, sample_tvc\<lparr>m_fee_too_low := True, m_added_to_pool := True, m_relay := Relay_fluff\<rparr>,
      empty_pool\<lparr>m_txs_by_fee_and_receive_time := [((False, (12345, 100), 1000), 7)],
        txpool_store :=
          [(7, empty_meta\<lparr>meta_weight := 100, meta_fee := 12345, meta_receive_time := 1000,
                 meta_last_relayed_time := 2 ^ 64 - 1, meta_relay_method := Relay_fluff\<rparr>, 70)],
        m_spent_key_images := [(17, [7])],
        m_input_cache :=
          [(7, True, sample_tvc\<lparr>m_verification_failed := True, m_fee_too_low := True\<rparr>, 0, 0)],
        m_txpool_weight := 100, m_cookie := 2\<rparr>)"
  by (simp add: add_eval pool_eval sample_deregister_def)

text \<open>
  The duplicate check of \<open>add_tx\<close> at work: \<open>stale_pool\<close> holds a deregister for service
  node 0 of the quorum at height 2, so a second one for the same pair is rejected as a
  double spend and the pool stays as it was, while one for height 50 is admitted.
\<close>

lemma add_tx_duplicate_deregister:
  "add_tx (sample_pool_env (True, 0) True) (sample_deregister 2) 7 70 100 sample_tvc Relay_fluff
     False 17 stale_pool
   = (False, sample_tvc\<lparr>m_verification_failed := True, m_double_spend := True\<rparr>, stale_pool)
   \<and> fst (add_tx (sample_pool_env (True, 0) True) (sample_deregister 50) 7 70 100 sample_tvc
            Relay_fluff False 17 stale_pool)"
  by (simp add: add_eval pool_eval sample_deregister_def stale_pool_def mark_double_spend_def)

section \<open>Preservation of the registry invariant\<close>






































end
